theory Spec2Isabelle
  imports Complex_Main
begin

section \<open>Values, exceptions and strings\<close>

text \<open>
  The program is Python: values travelling between the HTTP layer, the client and the tools
  are the results of \<^verbatim>\<open>json.loads\<close> or dict literals. They are modelled by the datatype
  \<open>json\<close>; a dict is an association list in insertion order, looked up with \<open>map_of\<close>.
  Floating-point numbers only occur as opaque payload and as sleep durations and are
  modelled by \<open>real\<close>.
\<close>

datatype json =
    JNull
  | JBool bool
  | JInt int
  | JFloat real
  | JStr string
  | JList "json list"
  | JDict "(string \<times> json) list"

text \<open>
  Python exceptions that the modelled code can meet, each with the text \<^verbatim>\<open>str(e)\<close>
  gives. Only subclasses of \<^verbatim>\<open>Exception\<close> are modelled.
\<close>

datatype exn =
    ValueError string
  | TypeError string
  | AttributeError string

fun exn_str :: "exn \<Rightarrow> string" where
  "exn_str (ValueError m) = m"
| "exn_str (TypeError m) = m"
| "exn_str (AttributeError m) = m"

text \<open>Python's truth value of an object (\<^verbatim>\<open>if x\<close>, \<^verbatim>\<open>not x\<close>).\<close>

fun truthy :: "json \<Rightarrow> bool" where
  "truthy JNull = False"
| "truthy (JBool b) = b"
| "truthy (JInt i) = (i \<noteq> 0)"
| "truthy (JFloat r) = (r \<noteq> 0)"
| "truthy (JStr s) = (s \<noteq> [])"
| "truthy (JList xs) = (xs \<noteq> [])"
| "truthy (JDict kvs) = (kvs \<noteq> [])"

text \<open>The name Python prints for the type of a value in an error message.\<close>

fun type_name :: "json \<Rightarrow> string" where
  "type_name JNull = ''NoneType''"
| "type_name (JBool b) = ''bool''"
| "type_name (JInt i) = ''int''"
| "type_name (JFloat r) = ''float''"
| "type_name (JStr s) = ''str''"
| "type_name (JList xs) = ''list''"
| "type_name (JDict kvs) = ''dict''"

definition no_attribute :: "json \<Rightarrow> string \<Rightarrow> exn" where
  "no_attribute v a =
     AttributeError ([CHR 0x27] @ type_name v @ [CHR 0x27] @ '' object has no attribute ''
                     @ [CHR 0x27] @ a @ [CHR 0x27])"

text \<open>\<^verbatim>\<open>isinstance(x, dict) and "error" in x\<close>, the test every layer uses for an error value.\<close>

fun is_error :: "json \<Rightarrow> bool" where
  "is_error (JDict kvs) = (map_of kvs ''error'' \<noteq> None)"
| "is_error _ = False"

fun is_list :: "json \<Rightarrow> bool" where
  "is_list (JList xs) = True"
| "is_list _ = False"

fun is_dict :: "json \<Rightarrow> bool" where
  "is_dict (JDict kvs) = True"
| "is_dict _ = False"

text \<open>\<^verbatim>\<open>{"error": msg}\<close>\<close>

definition error_dict :: "string \<Rightarrow> json" where
  "error_dict msg = JDict [(''error'', JStr msg)]"

text \<open>\<^verbatim>\<open>d[k] = v\<close> on a dict: an existing key keeps its position, a new key goes last.\<close>

fun dict_set :: "(string \<times> json) list \<Rightarrow> string \<Rightarrow> json \<Rightarrow> (string \<times> json) list" where
  "dict_set [] k v = [(k, v)]"
| "dict_set ((k', v') # kvs) k v =
     (if k' = k then (k, v) # kvs else (k', v') # dict_set kvs k v)"

text \<open>\<^verbatim>\<open>x.get(k, default)\<close>: raises \<^verbatim>\<open>AttributeError\<close> unless \<open>x\<close> is a dict.\<close>

fun py_get :: "json \<Rightarrow> string \<Rightarrow> json \<Rightarrow> exn + json" where
  "py_get (JDict kvs) k d = Inr (case map_of kvs k of None \<Rightarrow> d | Some v \<Rightarrow> v)"
| "py_get v k d = Inl (no_attribute v ''get'')"

text \<open>\<^verbatim>\<open>str(n)\<close> for an integer, as the f-strings of the client format it.\<close>

fun str_nat :: "nat \<Rightarrow> string" where
  "str_nat n =
     (if n < 10 then [''0123456789'' ! n]
      else str_nat (n div 10) @ [''0123456789'' ! (n mod 10)])"

declare str_nat.simps [simp del]

definition str_int :: "int \<Rightarrow> string" where
  "str_int i = (if i < 0 then CHR ''-'' # str_nat (nat (- i)) else str_nat (nat i))"

text \<open>A string option is Python's \<^verbatim>\<open>Optional[str]\<close>.\<close>

fun opt_str :: "string option \<Rightarrow> json" where
  "opt_str None = JNull"
| "opt_str (Some s) = JStr s"

section \<open>Configuration (config.py)\<close>

record config =
  DIIGO_USERNAME :: "string option"
  DIIGO_PASSWORD :: "string option"
  DIIGO_API_KEY :: "string option"
  DIIGO_BASE_URL :: string
  REQUEST_TIMEOUT :: int
  MAX_BOOKMARKS_PER_REQUEST :: int
  MAX_RETRIES :: int
  RETRY_BACKOFF :: real

definition get_default_user :: "config \<Rightarrow> string option" where
  "get_default_user cfg = DIIGO_USERNAME cfg"

section \<open>The world: HTTP server, sleeps and sessions\<close>

text \<open>
  One HTTP attempt (\<^verbatim>\<open>session.request(method, url, params=..., data=...)\<close>) is a
  \<open>request\<close>. What the attempt does is an \<open>outcome\<close>, classified by the path the
  attempt takes through the handlers of \<^verbatim>\<open>_request_with_retry\<close>:
  \<^item> \<open>Response status text js\<close>: a response arrived and its body was read;
    \<open>text\<close> is \<^verbatim>\<open>resp.text()\<close>, and \<open>js\<close> is what \<^verbatim>\<open>resp.json()\<close> returns, or
    \<open>None\<close> when it raises \<^verbatim>\<open>aiohttp.ContentTypeError\<close>;
  \<^item> \<open>Timeout\<close>: \<^verbatim>\<open>asyncio.TimeoutError\<close> was raised during the attempt;
  \<^item> \<open>Fault msg\<close>: any other \<^verbatim>\<open>Exception\<close> \<open>e\<close> was raised during the attempt,
    with \<open>msg = str(e)\<close>.
  The server is any state machine \<open>srv\<close> over a state type \<open>'w\<close>.
\<close>

record request =
  req_method :: string
  req_url :: string
  req_params :: "(string \<times> json) list"
  req_data :: "(string \<times> json) list option"

datatype outcome =
    Response int string "json option"
  | Timeout
  | Fault string

type_synonym 'w server = "'w \<Rightarrow> request \<Rightarrow> outcome \<times> 'w"

text \<open>
  The observable effects, in order: HTTP attempts, \<^verbatim>\<open>asyncio.sleep\<close> calls, and the
  opening and closing of the client session by \<^verbatim>\<open>async with DiigoClient()\<close>.
\<close>

datatype event =
    Request request
  | Sleep real
  | SessionOpen
  | SessionClose

record 'w state =
  server :: 'w
  trace :: "event list"

definition log_event :: "event \<Rightarrow> 'w state \<Rightarrow> 'w state" where
  "log_event e st = st\<lparr>trace := trace st @ [e]\<rparr>"

text \<open>One attempt: the server answers and moves on, the attempt is recorded.\<close>

definition send :: "'w server \<Rightarrow> request \<Rightarrow> 'w state \<Rightarrow> outcome \<times> 'w state" where
  "send srv req st =
     (case srv (server st) req of
        (out, w') \<Rightarrow> (out, \<lparr>server = w', trace = trace st @ [Request req]\<rparr>))"

section \<open>The HTTP client (diigo\_client.py)\<close>

text \<open>
  The body of the \<^verbatim>\<open>for attempt in range(Config.MAX_RETRIES)\<close> loop of
  \<^verbatim>\<open>_request_with_retry\<close>, from attempt index \<open>attempt\<close> on. The result is the
  returned value and the state after the call.
\<close>

function retry_loop ::
  "config \<Rightarrow> 'w server \<Rightarrow> request \<Rightarrow> int \<Rightarrow> 'w state \<Rightarrow> json \<times> 'w state" where
  "retry_loop cfg srv req attempt st =
     (if attempt < MAX_RETRIES cfg then
        (case send srv req st of
           (Response status text js, st1) \<Rightarrow>
             if status = 200 then
               (case js of
                  Some j \<Rightarrow> (j, st1)
                | None \<Rightarrow> (JDict [(''message'', JStr text)], st1))
             else if status = 400 then
               (if attempt < MAX_RETRIES cfg - 1 then
                  retry_loop cfg srv req (attempt + 1)
                    (log_event (Sleep (RETRY_BACKOFF cfg ^ nat attempt)) st1)
                else
                  (error_dict (''Request failed after '' @ str_int (MAX_RETRIES cfg)
                               @ '' attempts: '' @ text), st1))
             else if status = 401 then
               (error_dict (''Authentication failed: '' @ text), st1)
             else if status = 403 then
               (error_dict (''Access forbidden: '' @ text), st1)
             else if status = 404 then
               (error_dict (''Resource not found: '' @ text), st1)
             else if status = 503 then
               (if attempt < MAX_RETRIES cfg - 1 then
                  retry_loop cfg srv req (attempt + 1)
                    (log_event (Sleep (RETRY_BACKOFF cfg ^ nat attempt)) st1)
                else
                  (error_dict (''Server busy after '' @ str_int (MAX_RETRIES cfg)
                               @ '' attempts: '' @ text), st1))
             else
               (error_dict (''HTTP '' @ str_int status @ '': '' @ text), st1)
         | (Timeout, st1) \<Rightarrow>
             if attempt < MAX_RETRIES cfg - 1 then
               retry_loop cfg srv req (attempt + 1)
                 (log_event (Sleep (RETRY_BACKOFF cfg ^ nat attempt)) st1)
             else
               (error_dict (''Request timeout after '' @ str_int (MAX_RETRIES cfg)
                            @ '' attempts''), st1)
         | (Fault msg, st1) \<Rightarrow>
             (error_dict (''Request failed: '' @ msg), st1))
      else (error_dict ''Max retries exceeded'', st))"
  by pat_completeness auto
termination
  by (relation "measure (\<lambda>(cfg, srv, req, attempt, st). nat (MAX_RETRIES cfg - attempt))") auto

declare retry_loop.simps [simp del]

text \<open>
  The request every attempt of one call sends: the API key is added to the query
  parameters (\<^verbatim>\<open>params["key"] = self.api_key\<close>) and the URL is
  \<^verbatim>\<open>f"{self.base_url}/{endpoint}"\<close>.
\<close>

definition build_request ::
  "config \<Rightarrow> string \<Rightarrow> string \<Rightarrow> (string \<times> json) list option
     \<Rightarrow> (string \<times> json) list option \<Rightarrow> request" where
  "build_request cfg method endpoint params data =
     \<lparr>req_method = method,
      req_url = DIIGO_BASE_URL cfg @ ''/'' @ endpoint,
      req_params = dict_set (case params of None \<Rightarrow> [] | Some ps \<Rightarrow> ps) ''key''
                     (opt_str (DIIGO_API_KEY cfg)),
      req_data = data\<rparr>"

definition request_with_retry ::
  "config \<Rightarrow> 'w server \<Rightarrow> string \<Rightarrow> string \<Rightarrow> (string \<times> json) list option
     \<Rightarrow> (string \<times> json) list option \<Rightarrow> 'w state \<Rightarrow> json \<times> 'w state" where
  "request_with_retry cfg srv method endpoint params data st =
     retry_loop cfg srv (build_request cfg method endpoint params data) 0 st"

section \<open>Parameter helpers (utils.py)\<close>

text \<open>
  \<^verbatim>\<open>str.lower()\<close>, on the ASCII letters (characters here are bytes; Python lowers every
  cased Unicode letter).
\<close>

definition lower_char :: "char \<Rightarrow> char" where
  "lower_char c =
     (case map_of (zip ''ABCDEFGHIJKLMNOPQRSTUVWXYZ'' ''abcdefghijklmnopqrstuvwxyz'') c of
        None \<Rightarrow> c
      | Some d \<Rightarrow> d)"

definition lower :: "string \<Rightarrow> string" where
  "lower s = map lower_char s"

fun parse_bool_param :: "json \<Rightarrow> string" where
  "parse_bool_param (JBool b) = (if b then ''yes'' else ''no'')"
| "parse_bool_param (JStr s) =
     (if lower s \<in> set [''yes'', ''true'', ''1'', ''y''] then ''yes'' else ''no'')"
| "parse_bool_param v = ''no''"

text \<open>
  \<^verbatim>\<open>validate_url\<close>. The standard library's \<^verbatim>\<open>urlparse\<close> is a parameter \<open>urlparse\<close>: it
  raises or returns the scheme and the network location of the URL.
  \<^verbatim>\<open>all([result.scheme, result.netloc])\<close> holds when both strings are non-empty.
\<close>

definition validate_url :: "(string \<Rightarrow> exn + string \<times> string) \<Rightarrow> string \<Rightarrow> bool" where
  "validate_url urlparse url =
     (case urlparse url of
        Inl e \<Rightarrow> False
      | Inr (scheme, netloc) \<Rightarrow> scheme \<noteq> [] \<and> netloc \<noteq> [])"

text \<open>
  \<^verbatim>\<open>str.strip()\<close> removes leading and trailing whitespace; \<open>isspace\<close> is Python's
  \<^verbatim>\<open>str.isspace\<close> on ASCII: tab, line feed, vertical tab, form feed, carriage return,
  the separators 0x1C to 0x1F, and space.
\<close>

definition isspace :: "char \<Rightarrow> bool" where
  "isspace c = (c \<in> set [CHR 0x09, CHR 0x0A, CHR 0x0B, CHR 0x0C, CHR 0x0D,
                           CHR 0x1C, CHR 0x1D, CHR 0x1E, CHR 0x1F, CHR 0x20])"

definition strip :: "string \<Rightarrow> string" where
  "strip s = rev (dropWhile isspace (rev (dropWhile isspace s)))"

text \<open>\<^verbatim>\<open>s.split(sep)\<close> for a one-character separator: always at least one piece.\<close>

fun split :: "char \<Rightarrow> string \<Rightarrow> string list" where
  "split sep [] = [[]]"
| "split sep (c # cs) =
     (if c = sep then [] # split sep cs
      else (case split sep cs of
              [] \<Rightarrow> [[c]]
            | p # ps \<Rightarrow> (c # p) # ps))"

text \<open>\<^verbatim>\<open>sep.join(xs)\<close>\<close>

fun join :: "string \<Rightarrow> string list \<Rightarrow> string" where
  "join sep [] = []"
| "join sep [x] = x"
| "join sep (x # y # ys) = x @ sep @ join sep (y # ys)"

definition parse_tags :: "string \<Rightarrow> string list" where
  "parse_tags tags_string =
     (if tags_string = [] \<or> strip tags_string = [] then []
      else map strip (filter (\<lambda>t. strip t \<noteq> []) (split CHR '','' tags_string)))"

definition tags_to_string :: "string list \<Rightarrow> string" where
  "tags_to_string tags = join '','' tags"

section \<open>Bookmark operations of the client (diigo\_client.py)\<close>

text \<open>
  \<^verbatim>\<open>get_bookmarks(user, start, count, sort, tags, filter, list_name)\<close>: first the
  query parameters it builds, then the call. The arguments \<open>sort'\<close> and \<open>filter'\<close> are
  the source's \<^verbatim>\<open>sort\<close> and \<^verbatim>\<open>filter\<close>.
\<close>

definition get_bookmarks_params ::
  "config \<Rightarrow> string option \<Rightarrow> int \<Rightarrow> int \<Rightarrow> int \<Rightarrow> string option \<Rightarrow> string
     \<Rightarrow> string option \<Rightarrow> (string \<times> json) list" where
  "get_bookmarks_params cfg user start count sort' tags filter' list_name =
     (let user1 = (case user of None \<Rightarrow> get_default_user cfg | Some u \<Rightarrow> Some u);
          params = [(''user'', opt_str user1),
                    (''start'', JInt start),
                    (''count'', JInt (min count (MAX_BOOKMARKS_PER_REQUEST cfg))),
                    (''sort'', JInt sort'),
                    (''filter'', JStr filter')];
          params1 = (if truthy (opt_str tags)
                     then dict_set params ''tags'' (opt_str tags) else params);
          params2 = (if truthy (opt_str list_name)
                     then dict_set params1 ''list'' (opt_str list_name) else params1)
      in params2)"

definition get_bookmarks ::
  "config \<Rightarrow> 'w server \<Rightarrow> string option \<Rightarrow> int \<Rightarrow> int \<Rightarrow> int \<Rightarrow> string option
     \<Rightarrow> string \<Rightarrow> string option \<Rightarrow> 'w state \<Rightarrow> json \<times> 'w state" where
  "get_bookmarks cfg srv user start count sort' tags filter' list_name st =
     (case request_with_retry cfg srv ''GET'' ''bookmarks''
             (Some (get_bookmarks_params cfg user start count sort' tags filter' list_name))
             None st of
        (result, st1) \<Rightarrow>
          if is_error result then (result, st1)
          else (if is_list result then result else JList [], st1))"

text \<open>
  Iterating over a value (\<^verbatim>\<open>for b in x\<close>, \<^verbatim>\<open>list.extend(x)\<close>): the items of a list, the
  keys of a dict, the characters of a string; anything else is not iterable.
\<close>

fun iter_json :: "json \<Rightarrow> exn + json list" where
  "iter_json (JList xs) = Inr xs"
| "iter_json (JDict kvs) = Inr (map (\<lambda>kv. JStr (fst kv)) kvs)"
| "iter_json (JStr s) = Inr (map (\<lambda>c. JStr [c]) s)"
| "iter_json v =
     Inl (TypeError ([CHR 0x27] @ type_name v @ [CHR 0x27] @ '' object is not iterable''))"

text \<open>
  The \<^verbatim>\<open>while True\<close> loop of \<^verbatim>\<open>get_all_bookmarks\<close>, with the offset \<open>start\<close> and the
  list \<open>bookmarks\<close> collected so far. The loop has no bound of its own: \<open>None\<close> is a run
  that never returns.
\<close>

partial_function (option) get_all_bookmarks_loop ::
  "config \<Rightarrow> 'w server \<Rightarrow> string option \<Rightarrow> int \<Rightarrow> string option \<Rightarrow> string
     \<Rightarrow> string option \<Rightarrow> int \<Rightarrow> json list \<Rightarrow> 'w state
     \<Rightarrow> ((exn + json) \<times> 'w state) option" where
  "get_all_bookmarks_loop cfg srv user sort' tags filter' list_name start bookmarks st =
     (case get_bookmarks cfg srv user start 100 sort' tags filter' list_name st of
        (batch, st1) \<Rightarrow>
          if is_error batch then Some (Inr batch, st1)
          else if \<not> truthy batch then Some (Inr (JList bookmarks), st1)
          else (case iter_json batch of
                  Inl e \<Rightarrow> Some (Inl e, st1)
                | Inr items \<Rightarrow>
                    if length items < 100 then Some (Inr (JList (bookmarks @ items)), st1)
                    else get_all_bookmarks_loop cfg srv user sort' tags filter' list_name
                           (start + 100) (bookmarks @ items) st1))"

text \<open>
  \<^verbatim>\<open>get_all_bookmarks(user, **filters)\<close>; a filter the caller leaves out has the default
  of \<^verbatim>\<open>get_bookmarks\<close> (\<^verbatim>\<open>sort=1\<close>, \<^verbatim>\<open>tags=None\<close>, \<^verbatim>\<open>filter="all"\<close>,
  \<^verbatim>\<open>list_name=None\<close>), which the callers below pass explicitly.
\<close>

definition get_all_bookmarks ::
  "config \<Rightarrow> 'w server \<Rightarrow> string option \<Rightarrow> int \<Rightarrow> string option \<Rightarrow> string
     \<Rightarrow> string option \<Rightarrow> 'w state \<Rightarrow> ((exn + json) \<times> 'w state) option" where
  "get_all_bookmarks cfg srv user sort' tags filter' list_name st =
     get_all_bookmarks_loop cfg srv user sort' tags filter' list_name 0 [] st"

definition save_bookmark ::
  "config \<Rightarrow> 'w server \<Rightarrow> json \<Rightarrow> json \<Rightarrow> json \<Rightarrow> json \<Rightarrow> json \<Rightarrow> json \<Rightarrow> json
     \<Rightarrow> 'w state \<Rightarrow> json \<times> 'w state" where
  "save_bookmark cfg srv url title desc tags shared read_later merge st =
     request_with_retry cfg srv ''POST'' ''bookmarks'' None
       (Some [(''url'', url),
              (''title'', title),
              (''desc'', desc),
              (''tags'', tags),
              (''shared'', JStr (parse_bool_param shared)),
              (''readLater'', JStr (parse_bool_param read_later)),
              (''merge'', JStr (parse_bool_param merge))]) st"

definition delete_bookmark ::
  "config \<Rightarrow> 'w server \<Rightarrow> json \<Rightarrow> json \<Rightarrow> 'w state \<Rightarrow> json \<times> 'w state" where
  "delete_bookmark cfg srv url title st =
     request_with_retry cfg srv ''POST'' ''bookmarks'' None
       (Some [(''url'', url), (''title'', title)]) st"

text \<open>
  \<^verbatim>\<open>self.save_bookmark(**bookmark)\<close>: the call binds the keys of the dict to the
  parameters of \<^verbatim>\<open>save_bookmark\<close> and raises \<^verbatim>\<open>TypeError\<close> for a value that is not a
  mapping, for a key that is not a parameter and for a missing \<^verbatim>\<open>url\<close> or \<^verbatim>\<open>title\<close>.
  The message texts are the interpreter's and are given in outline.
\<close>

definition save_bookmark_kwargs ::
  "config \<Rightarrow> 'w server \<Rightarrow> json \<Rightarrow> 'w state \<Rightarrow> (exn + json) \<times> 'w state" where
  "save_bookmark_kwargs cfg srv bookmark st =
     (case bookmark of
        JDict kvs \<Rightarrow>
          (case filter (\<lambda>k. k \<notin> set [''url'', ''title'', ''desc'', ''tags'', ''shared'',
                                        ''read_later'', ''merge'']) (map fst kvs) of
             k # ks \<Rightarrow>
               (Inl (TypeError (''save_bookmark() got an unexpected keyword argument '' @ k)), st)
           | [] \<Rightarrow>
               (case filter (\<lambda>k. map_of kvs k = None) [''url'', ''title''] of
                  k # ks \<Rightarrow>
                    (Inl (TypeError (''save_bookmark() missing required argument '' @ k)), st)
                | [] \<Rightarrow>
                    (let arg = (\<lambda>k d. case map_of kvs k of None \<Rightarrow> d | Some v \<Rightarrow> v)
                     in case save_bookmark cfg srv (arg ''url'' JNull) (arg ''title'' JNull)
                               (arg ''desc'' (JStr [])) (arg ''tags'' (JStr []))
                               (arg ''shared'' (JBool False)) (arg ''read_later'' (JBool False))
                               (arg ''merge'' (JBool True)) st of
                          (result, st1) \<Rightarrow> (Inr result, st1))))
      | v \<Rightarrow>
          (Inl (TypeError (''save_bookmark() argument after ** must be a mapping, not ''
                           @ type_name v)), st))"

text \<open>
  The body of the \<^verbatim>\<open>try\<close> block of \<^verbatim>\<open>bulk_save_bookmarks\<close> for item \<open>i\<close> of \<open>n\<close>:
  the new success count and failure list, or the exception that left the block. An
  exception leaves both unchanged and skips the rate-limiting sleep, which is the last
  statement of the block.
\<close>

definition bulk_try ::
  "config \<Rightarrow> 'w server \<Rightarrow> real \<Rightarrow> int \<Rightarrow> int \<Rightarrow> json \<Rightarrow> int \<Rightarrow> json list \<Rightarrow> 'w state
     \<Rightarrow> (exn + int \<times> json list) \<times> 'w state" where
  "bulk_try cfg srv delay n i bookmark success_count failed st =
     (case save_bookmark_kwargs cfg srv bookmark st of
        (Inl e, st1) \<Rightarrow> (Inl e, st1)
      | (Inr result, st1) \<Rightarrow>
          (case (if is_dict result \<and> \<not> is_error result then Inr (success_count + 1, failed)
                 else (case py_get bookmark ''url'' JNull of
                         Inl e \<Rightarrow> Inl e
                       | Inr u \<Rightarrow>
                           (case py_get result ''error'' (JStr ''Unknown error'') of
                              Inl e \<Rightarrow> Inl e
                            | Inr err \<Rightarrow>
                                Inr (success_count,
                                     failed @ [JDict [(''index'', JInt i), (''url'', u),
                                                      (''error'', err)]])))) of
             Inl e \<Rightarrow> (Inl e, st1)
           | Inr acc \<Rightarrow>
               (Inr acc, if i < n - 1 then log_event (Sleep delay) st1 else st1)))"

text \<open>
  The \<^verbatim>\<open>for i, bookmark in enumerate(bookmarks)\<close> loop. The \<^verbatim>\<open>except\<close> handler records
  the failure; \<^verbatim>\<open>bookmark.get("url")\<close> inside the handler can itself raise, and that
  exception leaves the function.
\<close>

fun bulk_loop ::
  "config \<Rightarrow> 'w server \<Rightarrow> real \<Rightarrow> int \<Rightarrow> int \<Rightarrow> json list \<Rightarrow> int \<Rightarrow> json list \<Rightarrow> 'w state
     \<Rightarrow> (exn + int \<times> json list) \<times> 'w state" where
  "bulk_loop cfg srv delay n i [] success_count failed st = (Inr (success_count, failed), st)"
| "bulk_loop cfg srv delay n i (bookmark # rest) success_count failed st =
     (case bulk_try cfg srv delay n i bookmark success_count failed st of
        (Inr (success_count1, failed1), st1) \<Rightarrow>
          bulk_loop cfg srv delay n (i + 1) rest success_count1 failed1 st1
      | (Inl e, st1) \<Rightarrow>
          (case py_get bookmark ''url'' JNull of
             Inl e1 \<Rightarrow> (Inl e1, st1)
           | Inr u \<Rightarrow>
               bulk_loop cfg srv delay n (i + 1) rest success_count
                 (failed @ [JDict [(''index'', JInt i), (''url'', u),
                                   (''error'', JStr (exn_str e))]]) st1))"

definition bulk_save_bookmarks ::
  "config \<Rightarrow> 'w server \<Rightarrow> json list \<Rightarrow> real \<Rightarrow> 'w state \<Rightarrow> (exn + json) \<times> 'w state" where
  "bulk_save_bookmarks cfg srv bookmarks delay st =
     (case bulk_loop cfg srv delay (int (length bookmarks)) 0 bookmarks 0 [] st of
        (Inl e, st1) \<Rightarrow> (Inl e, st1)
      | (Inr (success_count, failed), st1) \<Rightarrow>
          (Inr (JDict [(''total'', JInt (int (length bookmarks))),
                       (''success'', JInt success_count),
                       (''failed'', JInt (int (length failed))),
                       (''failures'', JList failed)]), st1))"

section \<open>The tools (tools.py)\<close>

text \<open>
  A tool returns the string \<^verbatim>\<open>json.dumps(v)\<close>, modelled as \<open>Dumps v\<close>. A tool body
  starts in a state and either never returns (\<open>None\<close>) or ends in a state with an
  exception (\<open>Inl\<close>) or a value (\<open>Inr\<close>).
\<close>

datatype reply = Dumps json

type_synonym ('a, 'w) run = "'w state \<Rightarrow> ((exn + 'a) \<times> 'w state) option"

text \<open>
  \<^verbatim>\<open>DiigoClient()\<close> builds \<^verbatim>\<open>aiohttp.BasicAuth(username, password)\<close>, which refuses a
  missing login or password and a colon in the login.
\<close>

definition BasicAuth :: "string option \<Rightarrow> string option \<Rightarrow> exn + unit" where
  "BasicAuth login password =
     (case login of
        None \<Rightarrow> Inl (ValueError ''None is not allowed as login value'')
      | Some l \<Rightarrow>
          (case password of
             None \<Rightarrow> Inl (ValueError ''None is not allowed as password value'')
           | Some p \<Rightarrow>
               if CHR '':'' \<in> set l
               then Inl (ValueError (''A '' @ [CHR 0x22] @ '':'' @ [CHR 0x22]
                                      @ '' is not allowed in login (RFC 1945#section-11.1)''))
               else Inr ()))"

definition DiigoClient_init :: "config \<Rightarrow> exn + unit" where
  "DiigoClient_init cfg = BasicAuth (DIIGO_USERNAME cfg) (DIIGO_PASSWORD cfg)"

text \<open>
  \<^verbatim>\<open>async with DiigoClient() as client: body\<close>. The constructor runs first; then
  \<^verbatim>\<open>__aenter__\<close> opens the session, and \<^verbatim>\<open>__aexit__\<close> closes it whether the body
  returns or raises.
\<close>

definition with_client :: "config \<Rightarrow> ('a, 'w) run \<Rightarrow> ('a, 'w) run" where
  "with_client cfg body st =
     (case DiigoClient_init cfg of
        Inl e \<Rightarrow> Some (Inl e, st)
      | Inr u \<Rightarrow>
          (case body (log_event SessionOpen st) of
             None \<Rightarrow> None
           | Some (r, st1) \<Rightarrow> Some (r, log_event SessionClose st1)))"

text \<open>
  \<^verbatim>\<open>try: body except Exception as e: return json.dumps({"error": str(e)})\<close>, the frame
  of every tool.
\<close>

definition try_except :: "(reply, 'w) run \<Rightarrow> (reply, 'w) run" where
  "try_except body st =
     (case body st of
        None \<Rightarrow> None
      | Some (Inl e, st1) \<Rightarrow> Some (Inr (Dumps (error_dict (exn_str e))), st1)
      | Some (Inr out, st1) \<Rightarrow> Some (Inr out, st1))"

text \<open>
  \<^verbatim>\<open>for b in bookmarks: if b.get("url") == url: ...\<close>, the scan that five tools share:
  the first item whose \<^verbatim>\<open>url\<close> is the given string, if any.
\<close>

fun find_url :: "string \<Rightarrow> json list \<Rightarrow> exn + json option" where
  "find_url url [] = Inr None"
| "find_url url (b # bs) =
     (case py_get b ''url'' JNull of
        Inl e \<Rightarrow> Inl e
      | Inr v \<Rightarrow> if v = JStr url then Inr (Some b) else find_url url bs)"

definition list_bookmarks_tool ::
  "config \<Rightarrow> 'w server \<Rightarrow> string option \<Rightarrow> int option \<Rightarrow> int \<Rightarrow> int \<Rightarrow> string option
     \<Rightarrow> string \<Rightarrow> string option \<Rightarrow> (reply, 'w) run" where
  "list_bookmarks_tool cfg srv user count start sort' tags filter' list_name =
     try_except (with_client cfg (\<lambda>st.
       case (case count of
               None \<Rightarrow> get_all_bookmarks cfg srv user sort' tags filter' list_name st
             | Some c \<Rightarrow>
                 (case get_bookmarks cfg srv user start c sort' tags filter' list_name st of
                    (r, st1) \<Rightarrow> Some (Inr r, st1))) of
         None \<Rightarrow> None
       | Some (Inl e, st1) \<Rightarrow> Some (Inl e, st1)
       | Some (Inr bookmarks, st1) \<Rightarrow> Some (Inr (Dumps bookmarks), st1)))"

text \<open>\<^verbatim>\<open>q in s\<close> for strings, and \<^verbatim>\<open>x.lower()\<close>, which only a string has.\<close>

fun contains :: "string \<Rightarrow> string \<Rightarrow> bool" where
  "contains q [] = (q = [])"
| "contains q (c # cs) = (take (length q) (c # cs) = q \<or> contains q cs)"

fun py_lower :: "json \<Rightarrow> exn + string" where
  "py_lower (JStr s) = Inr (lower s)"
| "py_lower v = Inl (no_attribute v ''lower'')"

text \<open>
  The condition of the search comprehension:
  \<^verbatim>\<open>query_lower in b.get("title", "").lower() or query_lower in b.get("desc", "").lower()\<close>;
  the description is only looked at when the title does not match.
\<close>

definition search_match :: "string \<Rightarrow> json \<Rightarrow> exn + bool" where
  "search_match query_lower b =
     (case py_get b ''title'' (JStr []) of
        Inl e \<Rightarrow> Inl e
      | Inr t \<Rightarrow>
          (case py_lower t of
             Inl e \<Rightarrow> Inl e
           | Inr title_lower \<Rightarrow>
               if contains query_lower title_lower then Inr True
               else (case py_get b ''desc'' (JStr []) of
                       Inl e \<Rightarrow> Inl e
                     | Inr d \<Rightarrow>
                         (case py_lower d of
                            Inl e \<Rightarrow> Inl e
                          | Inr desc_lower \<Rightarrow> Inr (contains query_lower desc_lower)))))"

fun search_filter :: "string \<Rightarrow> json list \<Rightarrow> exn + json list" where
  "search_filter query_lower [] = Inr []"
| "search_filter query_lower (b # bs) =
     (case search_match query_lower b of
        Inl e \<Rightarrow> Inl e
      | Inr m \<Rightarrow>
          (case search_filter query_lower bs of
             Inl e \<Rightarrow> Inl e
           | Inr results \<Rightarrow> Inr (if m then b # results else results)))"

definition search_bookmarks_tool ::
  "config \<Rightarrow> 'w server \<Rightarrow> string \<Rightarrow> string option \<Rightarrow> string \<Rightarrow> string option
     \<Rightarrow> (reply, 'w) run" where
  "search_bookmarks_tool cfg srv query tags filter' user =
     try_except (with_client cfg (\<lambda>st.
       case get_all_bookmarks cfg srv user 1 tags filter' None st of
         None \<Rightarrow> None
       | Some (Inl e, st1) \<Rightarrow> Some (Inl e, st1)
       | Some (Inr bookmarks, st1) \<Rightarrow>
           if is_error bookmarks then Some (Inr (Dumps bookmarks), st1)
           else (case iter_json bookmarks of
                   Inl e \<Rightarrow> Some (Inl e, st1)
                 | Inr bs \<Rightarrow>
                     (case search_filter (lower query) bs of
                        Inl e \<Rightarrow> Some (Inl e, st1)
                      | Inr results \<Rightarrow> Some (Inr (Dumps (JList results)), st1)))))"

definition get_bookmark_tool ::
  "config \<Rightarrow> 'w server \<Rightarrow> string \<Rightarrow> string option \<Rightarrow> (reply, 'w) run" where
  "get_bookmark_tool cfg srv url user =
     try_except (with_client cfg (\<lambda>st.
       case get_all_bookmarks cfg srv user 1 None ''all'' None st of
         None \<Rightarrow> None
       | Some (Inl e, st1) \<Rightarrow> Some (Inl e, st1)
       | Some (Inr bookmarks, st1) \<Rightarrow>
           if is_error bookmarks then Some (Inr (Dumps bookmarks), st1)
           else (case iter_json bookmarks of
                   Inl e \<Rightarrow> Some (Inl e, st1)
                 | Inr bs \<Rightarrow>
                     (case find_url url bs of
                        Inl e \<Rightarrow> Some (Inl e, st1)
                      | Inr (Some b) \<Rightarrow> Some (Inr (Dumps b), st1)
                      | Inr None \<Rightarrow>
                          Some (Inr (Dumps (error_dict (''Bookmark not found: '' @ url))), st1)))))"

definition create_bookmark_tool ::
  "config \<Rightarrow> 'w server \<Rightarrow> (string \<Rightarrow> exn + string \<times> string) \<Rightarrow> string \<Rightarrow> string
     \<Rightarrow> string \<Rightarrow> string \<Rightarrow> bool \<Rightarrow> bool \<Rightarrow> (reply, 'w) run" where
  "create_bookmark_tool cfg srv urlparse url title desc tags shared read_later =
     try_except (\<lambda>st.
       if \<not> validate_url urlparse url
       then Some (Inr (Dumps (error_dict (''Invalid URL: '' @ url))), st)
       else with_client cfg (\<lambda>st1.
              case save_bookmark cfg srv (JStr url) (JStr title) (JStr desc) (JStr tags)
                     (JBool shared) (JBool read_later) (JBool False) st1 of
                (result, st2) \<Rightarrow> Some (Inr (Dumps result), st2)) st)"

text \<open>
  \<^verbatim>\<open>x if x is not None else existing.get(key, default)\<close> for the string fields and
  \<^verbatim>\<open>x if x is not None else (existing.get(key) == "yes")\<close> for the two flags of
  \<^verbatim>\<open>update_bookmark_tool\<close>.
\<close>

definition merged_field :: "string option \<Rightarrow> json \<Rightarrow> string \<Rightarrow> exn + json" where
  "merged_field given existing key =
     (case given of
        Some s \<Rightarrow> Inr (JStr s)
      | None \<Rightarrow> py_get existing key (JStr []))"

definition merged_flag :: "bool option \<Rightarrow> json \<Rightarrow> string \<Rightarrow> exn + json" where
  "merged_flag given existing key =
     (case given of
        Some b \<Rightarrow> Inr (JBool b)
      | None \<Rightarrow>
          (case py_get existing key JNull of
             Inl e \<Rightarrow> Inl e
           | Inr v \<Rightarrow> Inr (JBool (v = JStr ''yes''))))"

definition update_bookmark_tool ::
  "config \<Rightarrow> 'w server \<Rightarrow> (string \<Rightarrow> exn + string \<times> string) \<Rightarrow> string \<Rightarrow> string option
     \<Rightarrow> string option \<Rightarrow> string option \<Rightarrow> bool option \<Rightarrow> bool option \<Rightarrow> (reply, 'w) run" where
  "update_bookmark_tool cfg srv urlparse url title desc tags shared read_later =
     try_except (\<lambda>st.
       if \<not> validate_url urlparse url
       then Some (Inr (Dumps (error_dict (''Invalid URL: '' @ url))), st)
       else with_client cfg (\<lambda>st0.
         case get_all_bookmarks cfg srv None 1 None ''all'' None st0 of
           None \<Rightarrow> None
         | Some (Inl e, st1) \<Rightarrow> Some (Inl e, st1)
         | Some (Inr bookmarks, st1) \<Rightarrow>
             if is_error bookmarks then Some (Inr (Dumps bookmarks), st1)
             else (case iter_json bookmarks of
                     Inl e \<Rightarrow> Some (Inl e, st1)
                   | Inr bs \<Rightarrow>
                       (case find_url url bs of
                          Inl e \<Rightarrow> Some (Inl e, st1)
                        | Inr found \<Rightarrow>
                            (case (case found of
                                     None \<Rightarrow> None
                                   | Some b \<Rightarrow> if truthy b then Some b else None) of
                               None \<Rightarrow>
                                 Some (Inr (Dumps (error_dict (''Bookmark not found: '' @ url))),
                                       st1)
                             | Some existing \<Rightarrow>
                                 (case merged_field title existing ''title'' of
                                    Inl e \<Rightarrow> Some (Inl e, st1)
                                  | Inr title1 \<Rightarrow>
                                 (case merged_field desc existing ''desc'' of
                                    Inl e \<Rightarrow> Some (Inl e, st1)
                                  | Inr desc1 \<Rightarrow>
                                 (case merged_field tags existing ''tags'' of
                                    Inl e \<Rightarrow> Some (Inl e, st1)
                                  | Inr tags1 \<Rightarrow>
                                 (case merged_flag shared existing ''shared'' of
                                    Inl e \<Rightarrow> Some (Inl e, st1)
                                  | Inr shared1 \<Rightarrow>
                                 (case merged_flag read_later existing ''readlater'' of
                                    Inl e \<Rightarrow> Some (Inl e, st1)
                                  | Inr read_later1 \<Rightarrow>
                                 (case save_bookmark cfg srv (JStr url) title1 desc1 tags1
                                         shared1 read_later1 (JBool True) st1 of
                                    (result, st2) \<Rightarrow>
                                      Some (Inr (Dumps result), st2))))))))))) st)"

definition delete_bookmark_tool ::
  "config \<Rightarrow> 'w server \<Rightarrow> string \<Rightarrow> string option \<Rightarrow> (reply, 'w) run" where
  "delete_bookmark_tool cfg srv url title =
     try_except (with_client cfg (\<lambda>st.
       if \<not> truthy (opt_str title) then
         (case get_all_bookmarks cfg srv None 1 None ''all'' None st of
            None \<Rightarrow> None
          | Some (Inl e, st1) \<Rightarrow> Some (Inl e, st1)
          | Some (Inr bookmarks, st1) \<Rightarrow>
              if is_error bookmarks then Some (Inr (Dumps bookmarks), st1)
              else (case iter_json bookmarks of
                      Inl e \<Rightarrow> Some (Inl e, st1)
                    | Inr bs \<Rightarrow>
                        (case find_url url bs of
                           Inl e \<Rightarrow> Some (Inl e, st1)
                         | Inr found \<Rightarrow>
                             (case (case found of
                                      None \<Rightarrow> Inr (opt_str title)
                                    | Some b \<Rightarrow> py_get b ''title'' JNull) of
                                Inl e \<Rightarrow> Some (Inl e, st1)
                              | Inr title1 \<Rightarrow>
                                  if \<not> truthy title1
                                  then Some (Inr (Dumps (error_dict
                                               (''Bookmark not found: '' @ url))), st1)
                                  else (case delete_bookmark cfg srv (JStr url) title1 st1 of
                                          (result, st2) \<Rightarrow>
                                            Some (Inr (Dumps result), st2))))))
       else (case delete_bookmark cfg srv (JStr url) (opt_str title) st of
               (result, st1) \<Rightarrow> Some (Inr (Dumps result), st1))))"

definition get_recent_bookmarks_tool ::
  "config \<Rightarrow> 'w server \<Rightarrow> int \<Rightarrow> string option \<Rightarrow> (reply, 'w) run" where
  "get_recent_bookmarks_tool cfg srv count user =
     try_except (with_client cfg (\<lambda>st.
       case get_bookmarks cfg srv user 0 count 1 None ''all'' None st of
         (bookmarks, st1) \<Rightarrow> Some (Inr (Dumps bookmarks), st1)))"

definition get_annotations_tool ::
  "config \<Rightarrow> 'w server \<Rightarrow> string \<Rightarrow> string option \<Rightarrow> (reply, 'w) run" where
  "get_annotations_tool cfg srv url user =
     try_except (with_client cfg (\<lambda>st.
       case get_all_bookmarks cfg srv user 1 None ''all'' None st of
         None \<Rightarrow> None
       | Some (Inl e, st1) \<Rightarrow> Some (Inl e, st1)
       | Some (Inr bookmarks, st1) \<Rightarrow>
           if is_error bookmarks then Some (Inr (Dumps bookmarks), st1)
           else (case iter_json bookmarks of
                   Inl e \<Rightarrow> Some (Inl e, st1)
                 | Inr bs \<Rightarrow>
                     (case find_url url bs of
                        Inl e \<Rightarrow> Some (Inl e, st1)
                      | Inr (Some b) \<Rightarrow>
                          (case py_get b ''annotations'' (JList []) of
                             Inl e \<Rightarrow> Some (Inl e, st1)
                           | Inr annotations \<Rightarrow> Some (Inr (Dumps annotations), st1))
                      | Inr None \<Rightarrow>
                          Some (Inr (Dumps (error_dict (''Bookmark not found: '' @ url))), st1)))))"

definition bulk_create_bookmarks_tool ::
  "config \<Rightarrow> 'w server \<Rightarrow> json list \<Rightarrow> real \<Rightarrow> (reply, 'w) run" where
  "bulk_create_bookmarks_tool cfg srv bookmarks delay =
     try_except (with_client cfg (\<lambda>st.
       case bulk_save_bookmarks cfg srv bookmarks delay st of
         (Inl e, st1) \<Rightarrow> Some (Inl e, st1)
       | (Inr result, st1) \<Rightarrow> Some (Inr (Dumps result), st1)))"

section \<open>Observing a run\<close>

text \<open>The outcomes the retry loop treats as transient: HTTP 400, HTTP 503 and a timeout.\<close>

fun is_transient :: "outcome \<Rightarrow> bool" where
  "is_transient (Response status text js) = (status = 400 \<or> status = 503)"
| "is_transient Timeout = True"
| "is_transient (Fault msg) = False"

text \<open>
  The outcomes of \<open>n\<close> consecutive attempts of the same request, and the server state
  after them.
\<close>

fun serve :: "'w server \<Rightarrow> request \<Rightarrow> nat \<Rightarrow> 'w \<Rightarrow> outcome list \<times> 'w" where
  "serve srv req 0 w = ([], w)"
| "serve srv req (Suc n) w =
     (case srv w req of (out, w') \<Rightarrow>
        (case serve srv req n w' of (outs, w'') \<Rightarrow> (out # outs, w'')))"

text \<open>
  The events of \<open>k\<close> retried attempts, the first with attempt index \<open>a\<close>: each is the
  request followed by a sleep of \<open>b ^ i\<close> seconds for its attempt index \<open>i\<close>.
\<close>

definition retry_trace :: "request \<Rightarrow> real \<Rightarrow> nat \<Rightarrow> nat \<Rightarrow> event list" where
  "retry_trace req b a k = concat (map (\<lambda>i. [Request req, Sleep (b ^ i)]) [a..<a + k])"

text \<open>The sleep durations and the requests of a trace, in order.\<close>

fun sleeps_of :: "event list \<Rightarrow> real list" where
  "sleeps_of [] = []"
| "sleeps_of (Sleep d # es) = d # sleeps_of es"
| "sleeps_of (e # es) = sleeps_of es"

fun requests_of :: "event list \<Rightarrow> request list" where
  "requests_of [] = []"
| "requests_of (Request r # es) = r # requests_of es"
| "requests_of (e # es) = requests_of es"

text \<open>
  A mock server that replays a list of outcomes, one per attempt, and refuses the
  connection once the list is used up.
\<close>

definition scripted :: "outcome list server" where
  "scripted w req = (case w of [] \<Rightarrow> (Fault ''connection refused'', []) | out # outs \<Rightarrow> (out, outs))"

text \<open>The defaults of config.py, with example credentials.\<close>

definition default_config :: config where
  "default_config =
     \<lparr>DIIGO_USERNAME = Some ''alice'', DIIGO_PASSWORD = Some ''secret'',
      DIIGO_API_KEY = Some ''key'', DIIGO_BASE_URL = ''https://secure.diigo.com/api/v2'',
      REQUEST_TIMEOUT = 10, MAX_BOOKMARKS_PER_REQUEST = 100, MAX_RETRIES = 3,
      RETRY_BACKOFF = 2\<rparr>"

text \<open>The items of a list value.\<close>

fun list_items :: "json \<Rightarrow> json list" where
  "list_items (JList xs) = xs"
| "list_items v = []"

text \<open>
  The pages that \<open>k\<close> consecutive calls of \<open>get_bookmarks\<close> return, at the offsets
  \<open>start\<close>, \<open>start + 100\<close>, ..., and the state after them.
\<close>

fun fetch_pages ::
  "config \<Rightarrow> 'w server \<Rightarrow> string option \<Rightarrow> int \<Rightarrow> string option \<Rightarrow> string
     \<Rightarrow> string option \<Rightarrow> int \<Rightarrow> nat \<Rightarrow> 'w state \<Rightarrow> json list \<times> 'w state" where
  "fetch_pages cfg srv user sort' tags filter' list_name start 0 st = ([], st)"
| "fetch_pages cfg srv user sort' tags filter' list_name start (Suc k) st =
     (case get_bookmarks cfg srv user start 100 sort' tags filter' list_name st of
        (page, st1) \<Rightarrow>
          (case fetch_pages cfg srv user sort' tags filter' list_name (start + 100) k st1 of
             (pages, st2) \<Rightarrow> (page # pages, st2)))"

text \<open>A bookmark as the API returns it, and a 200 response carrying \<open>n\<close> of them.\<close>

definition example_bookmark :: json where
  "example_bookmark =
     JDict [(''url'', JStr ''https://e.com/a''), (''title'', JStr ''T''), (''desc'', JStr ''D''),
            (''tags'', JStr ''old''), (''shared'', JStr ''yes''), (''readlater'', JStr ''no'')]"

definition page_of :: "nat \<Rightarrow> outcome" where
  "page_of n = Response 200 ''[...]'' (Some (JList (replicate n example_bookmark)))"

text \<open>The request \<open>get_all_bookmarks\<close> sends for the page at offset \<open>start\<close>.\<close>

definition page_request :: "config \<Rightarrow> int \<Rightarrow> request" where
  "page_request cfg start =
     build_request cfg ''GET'' ''bookmarks''
       (Some (get_bookmarks_params cfg None start 100 1 None ''all'' None)) None"

text \<open>
  A stand-in for \<^verbatim>\<open>urlparse\<close> on URLs of the form \<^verbatim>\<open>scheme://host/path\<close>, to run
  examples: the scheme is what precedes the first \<^verbatim>\<open>://\<close>, the network location what
  follows it up to the next slash; without \<^verbatim>\<open>://\<close> both are empty.
\<close>

fun scheme_split :: "string \<Rightarrow> string \<Rightarrow> (string \<times> string) option" where
  "scheme_split acc [] = None"
| "scheme_split acc (c # cs) =
     (if take 3 (c # cs) = ''://'' then Some (rev acc, drop 3 (c # cs))
      else scheme_split (c # acc) cs)"

definition simple_urlparse :: "string \<Rightarrow> exn + string \<times> string" where
  "simple_urlparse url =
     (case scheme_split [] url of
        None \<Rightarrow> Inr ([], [])
      | Some (scheme, rest) \<Rightarrow> Inr (scheme, takeWhile (\<lambda>c. c \<noteq> CHR ''/'') rest))"

text \<open>A server that answers every request with a full page of 100 bookmarks.\<close>

definition endless :: "unit server" where
  "endless w req = (page_of 100, w)"

text \<open>
  A batch of three items whose second URL is not a URL, and the two answers a server can
  give to a save.
\<close>

definition bad_url_batch :: "json list" where
  "bad_url_batch =
     [JDict [(''url'', JStr ''https://e.com/a''), (''title'', JStr ''A'')],
      JDict [(''url'', JStr ''not a url''), (''title'', JStr ''B'')],
      JDict [(''url'', JStr ''https://e.com/c''), (''title'', JStr ''C'')]]"

definition saved_ok :: outcome where
  "saved_ok = Response 200 ''ok'' (Some (JDict [(''message'', JStr ''added 1 bookmark'')]))"

definition rejected :: outcome where
  "rejected = Response 404 ''bad url'' None"

section \<open>Properties of the retry loop\<close>

lemma retry_trace_0: "retry_trace req b a 0 = []"
  by (simp add: retry_trace_def)

lemma retry_trace_Suc:
  "retry_trace req b a (Suc k) = [Request req, Sleep (b ^ a)] @ retry_trace req b (Suc a) k"
  by (simp add: retry_trace_def upt_rec)

lemma retry_loop_transient_step:
  assumes "srv (server st) req = (out, w')" and "is_transient out"
    and "int a < MAX_RETRIES cfg - 1"
  shows "retry_loop cfg srv req (int a) st =
         retry_loop cfg srv req (int (Suc a))
           \<lparr>server = w', trace = trace st @ [Request req, Sleep (RETRY_BACKOFF cfg ^ a)]\<rparr>"
proof (cases out)
  case (Response status body js)
  with assms show ?thesis
    by (subst retry_loop.simps) (auto simp: send_def log_event_def add.commute)
next
  case Timeout
  with assms show ?thesis
    by (subst retry_loop.simps) (auto simp: send_def log_event_def add.commute)
next
  case (Fault msg)
  with assms show ?thesis by simp
qed

lemma retry_loop_skip:
  assumes "serve srv req k (server st) = (outs, w1)"
    and "\<forall>out\<in>set outs. is_transient out"
    and "int a + int k < MAX_RETRIES cfg"
  shows "retry_loop cfg srv req (int a) st =
         retry_loop cfg srv req (int (a + k))
           \<lparr>server = w1, trace = trace st @ retry_trace req (RETRY_BACKOFF cfg) a k\<rparr>"
  using assms
proof (induction k arbitrary: a st outs)
  case 0
  then show ?case by (cases st) (simp add: retry_trace_0)
next
  case (Suc k)
  obtain out w' where srv: "srv (server st) req = (out, w')" by (cases "srv (server st) req")
  obtain outs' w'' where rest: "serve srv req k w' = (outs', w'')" by (cases "serve srv req k w'")
  from Suc.prems(1) srv rest have outs: "outs = out # outs'" and w1: "w1 = w''" by auto
  from Suc.prems(2) outs have tr: "is_transient out" and tr': "\<forall>out\<in>set outs'. is_transient out"
    by auto
  let ?st1 = "\<lparr>server = w', trace = trace st @ [Request req, Sleep (RETRY_BACKOFF cfg ^ a)]\<rparr>"
  have step: "retry_loop cfg srv req (int a) st = retry_loop cfg srv req (int (Suc a)) ?st1"
    using srv tr Suc.prems(3) by (intro retry_loop_transient_step) auto
  have "retry_loop cfg srv req (int (Suc a)) ?st1 =
        retry_loop cfg srv req (int (Suc a + k))
          \<lparr>server = w'', trace = trace ?st1 @ retry_trace req (RETRY_BACKOFF cfg) (Suc a) k\<rparr>"
    using Suc.IH[of ?st1 outs' "Suc a"] rest tr' Suc.prems(3) w1 by simp
  with step w1 show ?case by (simp add: retry_trace_Suc)
qed

lemma sleeps_of_append: "sleeps_of (xs @ ys) = sleeps_of xs @ sleeps_of ys"
  by (induction xs rule: sleeps_of.induct) auto

lemma requests_of_append: "requests_of (xs @ ys) = requests_of xs @ requests_of ys"
  by (induction xs rule: requests_of.induct) auto

lemma sleeps_of_retry_trace: "sleeps_of (retry_trace req b a k) = map (\<lambda>i. b ^ i) [a..<a + k]"
  by (induction k arbitrary: a) (simp_all add: retry_trace_0 retry_trace_Suc upt_rec)

lemma requests_of_retry_trace: "requests_of (retry_trace req b a k) = replicate k req"
  by (induction k arbitrary: a) (simp_all add: retry_trace_0 retry_trace_Suc)

lemma serve_snoc:
  "serve srv req (Suc k) w =
     (case serve srv req k w of (outs, w1) \<Rightarrow>
        (case srv w1 req of (out, w2) \<Rightarrow> (outs @ [out], w2)))"
proof (induction k arbitrary: w)
  case 0
  show ?case by (simp split: prod.splits)
next
  case (Suc k)
  obtain out w' where a: "srv w req = (out, w')" by (cases "srv w req")
  obtain outs w1 where b: "serve srv req k w' = (outs, w1)" by (cases "serve srv req k w'")
  obtain out2 w2 where c: "srv w1 req = (out2, w2)" by (cases "srv w1 req")
  have "serve srv req (Suc k) w' = (outs @ [out2], w2)"
    using Suc.IH[of w'] b c by simp
  then have l: "serve srv req (Suc (Suc k)) w = (out # outs @ [out2], w2)"
    using a by simp
  have "serve srv req (Suc k) w = (out # outs, w1)"
    using a b by simp
  then show ?case using l c by simp
qed

lemma retry_loop_last:
  assumes "srv (server st) req = (out, w')" and "int a < MAX_RETRIES cfg"
  shows "(\<forall>msg. out = Fault msg \<longrightarrow> retry_loop cfg srv req (int a) st =
            (error_dict (''Request failed: '' @ msg), \<lparr>server = w', trace = trace st @ [Request req]\<rparr>))"
    and "(\<forall>body js. out = Response 401 body js \<longrightarrow> retry_loop cfg srv req (int a) st =
            (error_dict (''Authentication failed: '' @ body), \<lparr>server = w', trace = trace st @ [Request req]\<rparr>))"
    and "(\<forall>body j. out = Response 200 body (Some j) \<longrightarrow> retry_loop cfg srv req (int a) st =
            (j, \<lparr>server = w', trace = trace st @ [Request req]\<rparr>))"
    and "(\<forall>body. out = Response 200 body None \<longrightarrow> retry_loop cfg srv req (int a) st =
            (JDict [(''message'', JStr body)], \<lparr>server = w', trace = trace st @ [Request req]\<rparr>))"
  using assms by (auto simp: retry_loop.simps[of cfg srv req "int a" st] send_def)

lemma retry_loop_exhausted:
  assumes "srv (server st) req = (out, w')" and "a = MAX_RETRIES cfg - 1"
  shows "(\<forall>body js. out = Response 400 body js \<longrightarrow> retry_loop cfg srv req a st =
            (error_dict (''Request failed after '' @ str_int (MAX_RETRIES cfg) @ '' attempts: '' @ body),
             \<lparr>server = w', trace = trace st @ [Request req]\<rparr>))"
    and "(\<forall>body js. out = Response 503 body js \<longrightarrow> retry_loop cfg srv req a st =
            (error_dict (''Server busy after '' @ str_int (MAX_RETRIES cfg) @ '' attempts: '' @ body),
             \<lparr>server = w', trace = trace st @ [Request req]\<rparr>))"
    and "(out = Timeout \<longrightarrow> retry_loop cfg srv req a st =
            (error_dict (''Request timeout after '' @ str_int (MAX_RETRIES cfg) @ '' attempts''),
             \<lparr>server = w', trace = trace st @ [Request req]\<rparr>))"
  using assms(1) unfolding assms(2)
  by (auto simp: retry_loop.simps[of cfg srv req "MAX_RETRIES cfg - 1" st] send_def)

text \<open>
  Claim C3. Whatever the request, if an attempt is answered with HTTP 401 (after any
  number \<open>k\<close> of retried attempts, \<open>k = 0\<close> being the first attempt), the call returns
  the error \<^verbatim>\<open>Authentication failed: <body>\<close> from that attempt: the server is left in the
  state right after the 401 and the trace ends with that attempt's request, so no retry
  and no backoff sleep follows it.
\<close>

theorem auth_failure_is_terminal:
  assumes "req = build_request cfg method endpoint params data"
    and "serve srv req k (server st) = (outs, w1)"
    and "\<forall>out\<in>set outs. is_transient out"
    and "int k < MAX_RETRIES cfg"
    and "srv w1 req = (Response 401 body js, w2)"
  shows "request_with_retry cfg srv method endpoint params data st =
           (error_dict (''Authentication failed: '' @ body),
            \<lparr>server = w2,
             trace = trace st @ retry_trace req (RETRY_BACKOFF cfg) 0 k @ [Request req]\<rparr>)"
proof -
  let ?st1 = "\<lparr>server = w1, trace = trace st @ retry_trace req (RETRY_BACKOFF cfg) 0 k\<rparr>"
  have "retry_loop cfg srv req (int 0) st = retry_loop cfg srv req (int (0 + k)) ?st1"
    using assms(2,3,4) by (intro retry_loop_skip) auto
  moreover have "retry_loop cfg srv req (int k) ?st1 =
      (error_dict (''Authentication failed: '' @ body),
       \<lparr>server = w2, trace = trace ?st1 @ [Request req]\<rparr>)"
    using retry_loop_last(2)[of srv ?st1 req _ w2 k cfg] assms(4,5) by simp
  ultimately show ?thesis
    by (simp add: request_with_retry_def assms(1))
qed

theorem auth_failure_is_terminal_witness:
  "request_with_retry default_config scripted ''GET'' ''bookmarks'' None None
     \<lparr>server = [Response 503 ''busy'' None, Response 401 ''denied'' None, Response 200 ''[]'' (Some (JList []))],
      trace = []\<rparr> =
   (error_dict ''Authentication failed: denied'',
    \<lparr>server = [Response 200 ''[]'' (Some (JList []))],
     trace = [Request (build_request default_config ''GET'' ''bookmarks'' None None), Sleep 1,
              Request (build_request default_config ''GET'' ''bookmarks'' None None)]\<rparr>)"
  using auth_failure_is_terminal[of "build_request default_config ''GET'' ''bookmarks'' None None"
      default_config "''GET''" "''bookmarks''" None None scripted 1
      "\<lparr>server = [Response 503 ''busy'' None, Response 401 ''denied'' None, Response 200 ''[]'' (Some (JList []))], trace = []\<rparr>"
      "[Response 503 ''busy'' None]" "[Response 401 ''denied'' None, Response 200 ''[]'' (Some (JList []))]"
      "''denied''" None "[Response 200 ''[]'' (Some (JList []))]"]
  by (simp add: scripted_def retry_trace_def default_config_def)

text \<open>
  Claim C8. Whatever the request and however many attempts remain, an attempt that raises
  an exception other than a timeout makes the call return \<^verbatim>\<open>Request failed: <str(e)>\<close>
  at once: the trace ends with that attempt's request, with no retry and no sleep after it.
\<close>

theorem transport_fault_is_terminal:
  assumes "req = build_request cfg method endpoint params data"
    and "serve srv req k (server st) = (outs, w1)"
    and "\<forall>out\<in>set outs. is_transient out"
    and "int k < MAX_RETRIES cfg"
    and "srv w1 req = (Fault msg, w2)"
  shows "request_with_retry cfg srv method endpoint params data st =
           (error_dict (''Request failed: '' @ msg),
            \<lparr>server = w2,
             trace = trace st @ retry_trace req (RETRY_BACKOFF cfg) 0 k @ [Request req]\<rparr>)"
proof -
  let ?st1 = "\<lparr>server = w1, trace = trace st @ retry_trace req (RETRY_BACKOFF cfg) 0 k\<rparr>"
  have "retry_loop cfg srv req (int 0) st = retry_loop cfg srv req (int (0 + k)) ?st1"
    using assms(2,3,4) by (intro retry_loop_skip) auto
  moreover have "retry_loop cfg srv req (int k) ?st1 =
      (error_dict (''Request failed: '' @ msg),
       \<lparr>server = w2, trace = trace ?st1 @ [Request req]\<rparr>)"
    using retry_loop_last(1)[of srv ?st1 req _ w2 k cfg] assms(4,5) by simp
  ultimately show ?thesis
    by (simp add: request_with_retry_def assms(1))
qed

theorem transport_fault_is_terminal_witness:
  "request_with_retry default_config scripted ''POST'' ''bookmarks'' None None
     \<lparr>server = [Timeout, Fault ''Cannot connect to host'', Response 200 ''[]'' (Some (JList []))],
      trace = []\<rparr> =
   (error_dict ''Request failed: Cannot connect to host'',
    \<lparr>server = [Response 200 ''[]'' (Some (JList []))],
     trace = [Request (build_request default_config ''POST'' ''bookmarks'' None None), Sleep 1,
              Request (build_request default_config ''POST'' ''bookmarks'' None None)]\<rparr>)"
  using transport_fault_is_terminal[of "build_request default_config ''POST'' ''bookmarks'' None None"
      default_config "''POST''" "''bookmarks''" None None scripted 1
      "\<lparr>server = [Timeout, Fault ''Cannot connect to host'', Response 200 ''[]'' (Some (JList []))], trace = []\<rparr>"
      "[Timeout]" "[Fault ''Cannot connect to host'', Response 200 ''[]'' (Some (JList []))]"
      "''Cannot connect to host''" "[Response 200 ''[]'' (Some (JList []))]"]
  by (simp add: scripted_def retry_trace_def default_config_def)

lemma retry_loop_all_transient:
  assumes "0 < MAX_RETRIES cfg"
    and "serve srv req (nat (MAX_RETRIES cfg)) (server st) = (outs, w)"
    and "\<forall>out\<in>set outs. is_transient out"
  shows "outs \<noteq> []"
    and "snd (retry_loop cfg srv req 0 st) =
           \<lparr>server = w,
            trace = trace st @ retry_trace req (RETRY_BACKOFF cfg) 0 (nat (MAX_RETRIES cfg) - 1)
                    @ [Request req]\<rparr>"
    and "\<forall>body js. last outs = Response 400 body js \<longrightarrow> fst (retry_loop cfg srv req 0 st) =
            error_dict (''Request failed after '' @ str_int (MAX_RETRIES cfg) @ '' attempts: '' @ body)"
    and "\<forall>body js. last outs = Response 503 body js \<longrightarrow> fst (retry_loop cfg srv req 0 st) =
            error_dict (''Server busy after '' @ str_int (MAX_RETRIES cfg) @ '' attempts: '' @ body)"
    and "last outs = Timeout \<longrightarrow> fst (retry_loop cfg srv req 0 st) =
            error_dict (''Request timeout after '' @ str_int (MAX_RETRIES cfg) @ '' attempts'')"
proof -
  define k where "k = nat (MAX_RETRIES cfg) - 1"
  have n: "nat (MAX_RETRIES cfg) = Suc k" using assms(1) by (simp add: k_def)
  obtain outs1 w1 where s1: "serve srv req k (server st) = (outs1, w1)"
    by (cases "serve srv req k (server st)")
  obtain out w2 where s2: "srv w1 req = (out, w2)" by (cases "srv w1 req")
  from assms(2) have outs: "outs = outs1 @ [out]" and w: "w = w2"
    unfolding n serve_snoc using s1 s2 by auto
  show "outs \<noteq> []" using outs by simp
  have l: "last outs = out" using outs by simp
  have tr: "\<forall>out\<in>set outs1. is_transient out" and tro: "is_transient out"
    using assms(3) outs by auto
  let ?st1 = "\<lparr>server = w1, trace = trace st @ retry_trace req (RETRY_BACKOFF cfg) 0 k\<rparr>"
  have kN: "int k = MAX_RETRIES cfg - 1" using assms(1) by (simp add: k_def)
  have skip: "retry_loop cfg srv req (int 0) st = retry_loop cfg srv req (int (0 + k)) ?st1"
    using s1 tr kN by (intro retry_loop_skip) auto
  have s2': "srv (server ?st1) req = (out, w2)" using s2 by simp
  note ex = retry_loop_exhausted[of srv ?st1 req out w2 "int k" cfg, OF s2' kN]
  show "snd (retry_loop cfg srv req 0 st) =
           \<lparr>server = w,
            trace = trace st @ retry_trace req (RETRY_BACKOFF cfg) 0 (nat (MAX_RETRIES cfg) - 1)
                    @ [Request req]\<rparr>"
    using tro skip ex w unfolding k_def[symmetric] by (cases out) auto
  show "\<forall>body js. last outs = Response 400 body js \<longrightarrow> fst (retry_loop cfg srv req 0 st) =
            error_dict (''Request failed after '' @ str_int (MAX_RETRIES cfg) @ '' attempts: '' @ body)"
    using skip ex(1) l by auto
  show "\<forall>body js. last outs = Response 503 body js \<longrightarrow> fst (retry_loop cfg srv req 0 st) =
            error_dict (''Server busy after '' @ str_int (MAX_RETRIES cfg) @ '' attempts: '' @ body)"
    using skip ex(2) l by auto
  show "last outs = Timeout \<longrightarrow> fst (retry_loop cfg srv req 0 st) =
            error_dict (''Request timeout after '' @ str_int (MAX_RETRIES cfg) @ '' attempts'')"
    using skip ex(3) l by auto
qed

lemma replicate_pred_snoc: "0 < n \<Longrightarrow> replicate (n - Suc 0) x @ [x] = replicate n x"
  by (cases n) (simp_all add: replicate_append_same)

text \<open>
  Claim C2. Let \<open>n\<close> be the configured maximum number of attempts and \<open>b\<close> the backoff
  base. If all \<open>n\<close> attempts of a request end in HTTP 400, HTTP 503 or a timeout, the
  client makes exactly \<open>n\<close> attempts, sleeps \<open>b ^ i\<close> seconds after attempt \<open>i\<close> for
  \<open>i = 0, ..., n - 2\<close> (nothing after the last), and returns an error that states \<open>n\<close>:
  \<^verbatim>\<open>Request failed after n attempts: <body>\<close> when the last attempt was a 400,
  \<^verbatim>\<open>Server busy after n attempts: <body>\<close> for a 503 and
  \<^verbatim>\<open>Request timeout after n attempts\<close> for a timeout. With \<open>n = 3\<close>, the answers 503, 503,
  200 give the payload of the 200 after sleeps of \<open>b ^ 0\<close> and \<open>b ^ 1\<close> seconds.
  The sleep durations are real numbers here; the rounding of Python floats is not modelled.
\<close>

theorem retry_backoff_policy:
  assumes "req = build_request cfg method endpoint params data"
    and "b = RETRY_BACKOFF cfg"
    and "n = nat (MAX_RETRIES cfg)"
    and "res = request_with_retry cfg srv method endpoint params data st"
  shows "(0 < MAX_RETRIES cfg \<and> serve srv req n (server st) = (outs, w)
            \<and> (\<forall>out\<in>set outs. is_transient out) \<longrightarrow>
          snd res = \<lparr>server = w, trace = trace st @ retry_trace req b 0 (n - 1) @ [Request req]\<rparr>
          \<and> sleeps_of (retry_trace req b 0 (n - 1) @ [Request req]) = map (\<lambda>i. b ^ i) [0..<n - 1]
          \<and> requests_of (retry_trace req b 0 (n - 1) @ [Request req]) = replicate n req
          \<and> (\<forall>body js. last outs = Response 400 body js \<longrightarrow>
                fst res = error_dict (''Request failed after '' @ str_int (MAX_RETRIES cfg)
                                      @ '' attempts: '' @ body))
          \<and> (\<forall>body js. last outs = Response 503 body js \<longrightarrow>
                fst res = error_dict (''Server busy after '' @ str_int (MAX_RETRIES cfg)
                                      @ '' attempts: '' @ body))
          \<and> (last outs = Timeout \<longrightarrow>
                fst res = error_dict (''Request timeout after '' @ str_int (MAX_RETRIES cfg)
                                      @ '' attempts'')))
       \<and> (MAX_RETRIES cfg = 3
            \<and> serve srv req 3 (server st) =
                ([Response 503 body1 js1, Response 503 body2 js2, Response 200 body3 (Some payload)], w3)
          \<longrightarrow>
          res = (payload,
                 \<lparr>server = w3,
                  trace = trace st @ [Request req, Sleep (b ^ 0), Request req, Sleep (b ^ 1),
                                      Request req]\<rparr>)
          \<and> sum_list (sleeps_of [Request req, Sleep (b ^ 0), Request req, Sleep (b ^ 1),
                                   Request req]) = b ^ 0 + b ^ 1)"
proof (intro conjI impI)
  assume h: "0 < MAX_RETRIES cfg \<and> serve srv req n (server st) = (outs, w)
            \<and> (\<forall>out\<in>set outs. is_transient out)"
  then have h1: "0 < MAX_RETRIES cfg"
    and h2: "serve srv req (nat (MAX_RETRIES cfg)) (server st) = (outs, w)"
    and h3: "\<forall>out\<in>set outs. is_transient out"
    by (simp_all add: assms(3))
  note all = retry_loop_all_transient[OF h1 h2 h3]
  have res: "res = retry_loop cfg srv req 0 st"
    by (simp add: assms(4,1) request_with_retry_def)
  show "snd res = \<lparr>server = w, trace = trace st @ retry_trace req b 0 (n - 1) @ [Request req]\<rparr>"
    using all(2) by (simp add: res assms(2,3))
  show "sleeps_of (retry_trace req b 0 (n - 1) @ [Request req]) = map (\<lambda>i. b ^ i) [0..<n - 1]"
    by (simp add: sleeps_of_append sleeps_of_retry_trace)
  show "requests_of (retry_trace req b 0 (n - 1) @ [Request req]) = replicate n req"
    using h1 by (simp add: requests_of_append requests_of_retry_trace assms(3)
        replicate_pred_snoc)
  show "\<forall>body js. last outs = Response 400 body js \<longrightarrow>
          fst res = error_dict (''Request failed after '' @ str_int (MAX_RETRIES cfg)
                                @ '' attempts: '' @ body)"
    using all(3) by (simp only: res) 
  show "\<forall>body js. last outs = Response 503 body js \<longrightarrow>
          fst res = error_dict (''Server busy after '' @ str_int (MAX_RETRIES cfg)
                                @ '' attempts: '' @ body)"
    using all(4) by (simp only: res)
  show "fst res = error_dict (''Request timeout after '' @ str_int (MAX_RETRIES cfg)
                                @ '' attempts'')" if "last outs = Timeout"
    using all(5) that by (simp only: res)
next
  assume h: "MAX_RETRIES cfg = 3
            \<and> serve srv req 3 (server st) =
                ([Response 503 body1 js1, Response 503 body2 js2, Response 200 body3 (Some payload)], w3)"
  obtain outs2 w2 where s2: "serve srv req 2 (server st) = (outs2, w2)"
    by (cases "serve srv req 2 (server st)")
  obtain out w' where s3: "srv w2 req = (out, w')" by (cases "srv w2 req")
  have "serve srv req (Suc 2) (server st) = (outs2 @ [out], w')"
    unfolding serve_snoc using s2 s3 by simp
  with h have o2: "outs2 = [Response 503 body1 js1, Response 503 body2 js2]"
    and o: "out = Response 200 body3 (Some payload)" and w: "w' = w3"
    by (simp_all add: eval_nat_numeral)
  let ?st1 = "\<lparr>server = w2, trace = trace st @ retry_trace req (RETRY_BACKOFF cfg) 0 2\<rparr>"
  have "retry_loop cfg srv req (int 0) st = retry_loop cfg srv req (int (0 + 2)) ?st1"
    using s2 o2 h by (intro retry_loop_skip) auto
  moreover have "retry_loop cfg srv req (int 2) ?st1 =
      (payload, \<lparr>server = w3, trace = trace ?st1 @ [Request req]\<rparr>)"
    using retry_loop_last(3)[of srv ?st1 req out w3 2 cfg] s3 o w h by simp
  ultimately show "res = (payload,
                 \<lparr>server = w3,
                  trace = trace st @ [Request req, Sleep (b ^ 0), Request req, Sleep (b ^ 1),
                                      Request req]\<rparr>)"
    by (simp add: assms request_with_retry_def retry_trace_def eval_nat_numeral)
  show "sum_list (sleeps_of [Request req, Sleep (b ^ 0), Request req, Sleep (b ^ 1),
                                   Request req]) = b ^ 0 + b ^ 1"
    by simp
qed

theorem retry_backoff_policy_witness:
  "request_with_retry default_config scripted ''GET'' ''bookmarks'' None None
     \<lparr>server = [Response 400 ''slow down'' None, Timeout, Response 503 ''busy'' None], trace = []\<rparr> =
     (error_dict ''Server busy after 3 attempts: busy'',
      \<lparr>server = [],
       trace = [Request (build_request default_config ''GET'' ''bookmarks'' None None), Sleep 1,
                Request (build_request default_config ''GET'' ''bookmarks'' None None), Sleep 2,
                Request (build_request default_config ''GET'' ''bookmarks'' None None)]\<rparr>)
   \<and> request_with_retry default_config scripted ''GET'' ''bookmarks'' None None
     \<lparr>server = [Response 503 ''busy'' None, Response 503 ''busy'' None,
                Response 200 ''[]'' (Some (JList []))], trace = []\<rparr> =
     (JList [],
      \<lparr>server = [],
       trace = [Request (build_request default_config ''GET'' ''bookmarks'' None None), Sleep 1,
                Request (build_request default_config ''GET'' ''bookmarks'' None None), Sleep 2,
                Request (build_request default_config ''GET'' ''bookmarks'' None None)]\<rparr>)"
proof -
  let ?req = "build_request default_config ''GET'' ''bookmarks'' None None"
  let ?st1 = "\<lparr>server = [Response 400 ''slow down'' None, Timeout, Response 503 ''busy'' None], trace = []\<rparr>"
  let ?st2 = "\<lparr>server = [Response 503 ''busy'' None, Response 503 ''busy'' None,
                Response 200 ''[]'' (Some (JList []))], trace = []\<rparr>"
  have three: "str_int 3 = ''3''"
    by (simp add: str_int_def str_nat.simps)
  have a: "request_with_retry default_config scripted ''GET'' ''bookmarks'' None None ?st1 =
     (error_dict ''Server busy after 3 attempts: busy'',
      \<lparr>server = [], trace = [Request ?req, Sleep 1, Request ?req, Sleep 2, Request ?req]\<rparr>)"
    using retry_backoff_policy[of ?req default_config "''GET''" "''bookmarks''" None None
        2 3 _ scripted ?st1 "[Response 400 ''slow down'' None, Timeout, Response 503 ''busy'' None]" "[]",
        OF refl _ _ refl]
    by (simp add: default_config_def scripted_def retry_trace_def eval_nat_numeral three prod_eq_iff)
  have b: "request_with_retry default_config scripted ''GET'' ''bookmarks'' None None ?st2 =
     (JList [],
      \<lparr>server = [], trace = [Request ?req, Sleep 1, Request ?req, Sleep 2, Request ?req]\<rparr>)"
    using retry_backoff_policy[of ?req default_config "''GET''" "''bookmarks''" None None
        2 3 _ scripted ?st2 _ _ "''busy''" None "''busy''" None "''[]''" "JList []" "[]",
        OF refl _ _ refl]
    by (simp add: default_config_def scripted_def eval_nat_numeral)
  from a b show ?thesis by simp
qed

section \<open>Tag lists\<close>

lemma split_no_sep: "sep \<notin> set x \<Longrightarrow> split sep x = [x]"
  by (induction x) auto

lemma split_append_sep:
  "sep \<notin> set x \<Longrightarrow> split sep (x @ sep # rest) = x # split sep rest"
  by (induction x) auto

lemma split_join:
  assumes "\<forall>x\<in>set xs. sep \<notin> set x" and "xs \<noteq> []"
  shows "split sep (join [sep] xs) = xs"
  using assms
proof (induction "[sep]" xs rule: join.induct)
  case 1
  then show ?case by simp
next
  case (2 x)
  then show ?case by (simp add: split_no_sep)
next
  case (3 x y ys)
  then show ?case by (simp add: split_append_sep)
qed

lemma strip_eq_Nil: "strip s = [] \<longleftrightarrow> (\<forall>c\<in>set s. isspace c)"
proof
  assume "strip s = []"
  then have "dropWhile isspace s = []"
    by (auto simp: strip_def dropWhile_eq_Nil_conv dest: hd_dropWhile)
       (metis dropWhile_eq_Nil_conv hd_dropWhile list.set_sel(1))
  then show "\<forall>c\<in>set s. isspace c" by (simp add: dropWhile_eq_Nil_conv)
next
  assume "\<forall>c\<in>set s. isspace c"
  then show "strip s = []"
    by (auto simp: strip_def dropWhile_eq_Nil_conv dest: set_dropWhileD)
qed

lemma set_join_first: "set x \<subseteq> set (join sep (x # xs))"
  by (cases xs) auto

text \<open>
  Claim C9, amended. For every list \<open>xs\<close> of tags that are non-empty, trimmed
  (\<open>strip t = t\<close>) and free of commas, \<open>parse_tags (tags_to_string xs) = xs\<close>; and
  \<open>parse_tags\<close> of the empty string is the empty list. The comma is the separator and
  nothing escapes it, so a tag that contains one does not survive the round trip.
\<close>

theorem parse_tags_roundtrip:
  assumes "\<forall>t\<in>set xs. t \<noteq> [] \<and> strip t = t \<and> CHR '','' \<notin> set t"
  shows "parse_tags (tags_to_string xs) = xs \<and> parse_tags [] = []"
proof (cases xs)
  case Nil
  then show ?thesis by (simp add: parse_tags_def tags_to_string_def)
next
  case (Cons x rest)
  have x: "x \<noteq> []" "strip x = x" using assms Cons by auto
  then have "\<not> (\<forall>c\<in>set x. isspace c)" using strip_eq_Nil[of x] by auto
  then obtain c where c: "c \<in> set x" "\<not> isspace c" by auto
  then have cj: "c \<in> set (join '','' xs)" using set_join_first[of x "'',''" rest] Cons by auto
  then have nonempty: "join '','' xs \<noteq> []" by auto
  have stripped: "strip (join '','' xs) \<noteq> []"
    using cj c(2) strip_eq_Nil[of "join '','' xs"] by auto
  have sp: "split CHR '','' (join '','' xs) = xs"
    using assms Cons by (intro split_join) auto
  have f: "filter (\<lambda>t. strip t \<noteq> []) xs = xs"
    using assms by (intro filter_True) auto
  have m: "map strip xs = xs"
    using assms by (intro map_idI) auto
  show ?thesis
    using nonempty stripped by (simp add: parse_tags_def tags_to_string_def sp f m)
qed

theorem parse_tags_roundtrip_witness:
  "parse_tags (tags_to_string [''python'', ''web dev'', ''isabelle'']) =
     [''python'', ''web dev'', ''isabelle'']"
  using parse_tags_roundtrip[of "[''python'', ''web dev'', ''isabelle'']"]
  by (simp add: strip_def isspace_def)

text \<open>
  Claim C9 as stated fails: the single tag \<^verbatim>\<open>a,b\<close> is non-empty and trimmed, and comes
  back as the two tags \<^verbatim>\<open>a\<close> and \<^verbatim>\<open>b\<close>.
\<close>

theorem parse_tags_roundtrip_counterexample:
  "''a,b'' \<noteq> [] \<and> strip ''a,b'' = ''a,b''
   \<and> parse_tags (tags_to_string [''a,b'']) = [''a'', ''b'']
   \<and> parse_tags (tags_to_string [''a,b'']) \<noteq> [''a,b'']"
  by (simp add: parse_tags_def tags_to_string_def strip_def isspace_def)

section \<open>Successful responses and the bookmark list\<close>

lemma request_with_retry_success:
  assumes "req = build_request cfg method endpoint params data"
    and "serve srv req k (server st) = (outs, w1)"
    and "\<forall>out\<in>set outs. is_transient out"
    and "int k < MAX_RETRIES cfg"
    and "srv w1 req = (Response 200 body js, w2)"
  shows "request_with_retry cfg srv method endpoint params data st =
           (case js of Some j \<Rightarrow> j | None \<Rightarrow> JDict [(''message'', JStr body)],
            \<lparr>server = w2,
             trace = trace st @ retry_trace req (RETRY_BACKOFF cfg) 0 k @ [Request req]\<rparr>)"
proof -
  let ?st1 = "\<lparr>server = w1, trace = trace st @ retry_trace req (RETRY_BACKOFF cfg) 0 k\<rparr>"
  have skip: "retry_loop cfg srv req (int 0) st = retry_loop cfg srv req (int (0 + k)) ?st1"
    using assms(2,3,4) by (intro retry_loop_skip) auto
  have s: "srv (server ?st1) req = (Response 200 body js, w2)" using assms(5) by simp
  have "retry_loop cfg srv req (int k) ?st1 =
      (case js of Some j \<Rightarrow> j | None \<Rightarrow> JDict [(''message'', JStr body)],
       \<lparr>server = w2, trace = trace ?st1 @ [Request req]\<rparr>)"
    using retry_loop_last(3,4)[of srv ?st1 req "Response 200 body js" w2 k cfg, OF s assms(4)]
    by (cases js) auto
  with skip show ?thesis
    by (simp add: request_with_retry_def assms(1))
qed

lemma get_bookmarks_on_success:
  assumes "req = build_request cfg ''GET'' ''bookmarks''
                   (Some (get_bookmarks_params cfg user start count sort' tags filter' list_name))
                   None"
    and "serve srv req k (server st) = (outs, w1)"
    and "\<forall>out\<in>set outs. is_transient out"
    and "int k < MAX_RETRIES cfg"
    and "srv w1 req = (Response 200 body js, w2)"
  shows "fst (get_bookmarks cfg srv user start count sort' tags filter' list_name st) =
           (case js of
              None \<Rightarrow> JList []
            | Some j \<Rightarrow> if is_error j \<or> is_list j then j else JList [])"
  unfolding get_bookmarks_def request_with_retry_success[OF assms]
  by (cases js) (auto simp: )

text \<open>
  Claim C10, amended. When a call of \<open>get_bookmarks\<close> ends in an HTTP 200 (possibly after
  retried attempts) and the payload is neither a list nor a dict with the key
  \<^verbatim>\<open>error\<close> -- in particular when the body is not JSON, which the retry layer wraps as
  \<^verbatim>\<open>{"message": text}\<close> -- the call returns the empty list, the same value as for a user
  without bookmarks. A payload that is a dict with the key \<^verbatim>\<open>error\<close> is returned as it
  is, as an error value.
\<close>

theorem get_bookmarks_non_list_payload:
  assumes "req = build_request cfg ''GET'' ''bookmarks''
                   (Some (get_bookmarks_params cfg user start count sort' tags filter' list_name))
                   None"
    and "serve srv req k (server st) = (outs, w1)"
    and "\<forall>out\<in>set outs. is_transient out"
    and "int k < MAX_RETRIES cfg"
    and "srv w1 req = (Response 200 body js, w2)"
  shows "(js = None \<or> (\<exists>j. js = Some j \<and> \<not> is_list j \<and> \<not> is_error j) \<longrightarrow>
            fst (get_bookmarks cfg srv user start count sort' tags filter' list_name st) = JList [])
       \<and> (\<forall>j. js = Some j \<and> is_error j \<longrightarrow>
            fst (get_bookmarks cfg srv user start count sort' tags filter' list_name st) = j)"
  using get_bookmarks_on_success[OF assms] by auto

theorem get_bookmarks_non_list_payload_witness:
  "fst (get_bookmarks default_config scripted None 0 100 1 None ''all'' None
          \<lparr>server = [Timeout, Response 200 ''<html>maintenance</html>'' None], trace = []\<rparr>) = JList []
   \<and> fst (get_bookmarks default_config scripted None 0 100 1 None ''all'' None
          \<lparr>server = [Response 200 ''{}'' (Some (JDict [(''error'', JStr ''quota'')]))],
           trace = []\<rparr>) = JDict [(''error'', JStr ''quota'')]"
proof -
  let ?req = "build_request default_config ''GET'' ''bookmarks''
                (Some (get_bookmarks_params default_config None 0 100 1 None ''all'' None)) None"
  have a: "fst (get_bookmarks default_config scripted None 0 100 1 None ''all'' None
          \<lparr>server = [Timeout, Response 200 ''<html>maintenance</html>'' None], trace = []\<rparr>) = JList []"
    using get_bookmarks_non_list_payload[of ?req default_config None 0 100 1 None "''all''" None
        scripted 1 "\<lparr>server = [Timeout, Response 200 ''<html>maintenance</html>'' None], trace = []\<rparr>"
        "[Timeout]" "[Response 200 ''<html>maintenance</html>'' None]"
        "''<html>maintenance</html>''" None "[]"]
    by (simp add: scripted_def default_config_def)
  have b: "fst (get_bookmarks default_config scripted None 0 100 1 None ''all'' None
          \<lparr>server = [Response 200 ''{}'' (Some (JDict [(''error'', JStr ''quota'')]))],
           trace = []\<rparr>) = JDict [(''error'', JStr ''quota'')]"
    using get_bookmarks_non_list_payload[of ?req default_config None 0 100 1 None "''all''" None
        scripted 0 "\<lparr>server = [Response 200 ''{}'' (Some (JDict [(''error'', JStr ''quota'')]))], trace = []\<rparr>"
        "[]" "[Response 200 ''{}'' (Some (JDict [(''error'', JStr ''quota'')]))]"
        "''{}''" "Some (JDict [(''error'', JStr ''quota'')])" "[]"]
    by (simp add: scripted_def default_config_def)
  from a b show ?thesis by simp
qed

text \<open>
  Claim C10 as stated fails: a 200 whose payload is the dict \<^verbatim>\<open>{"error": "quota"}\<close> is
  not a list, and \<open>get_bookmarks\<close> returns that dict, not the empty list.
\<close>

theorem get_bookmarks_non_list_payload_counterexample:
  "\<not> is_list (JDict [(''error'', JStr ''quota'')])
   \<and> fst (get_bookmarks default_config scripted None 0 100 1 None ''all'' None
          \<lparr>server = [Response 200 ''{}'' (Some (JDict [(''error'', JStr ''quota'')]))],
           trace = []\<rparr>) \<noteq> JList []"
  using get_bookmarks_on_success[of
      "build_request default_config ''GET'' ''bookmarks''
         (Some (get_bookmarks_params default_config None 0 100 1 None ''all'' None)) None"
      default_config None 0 100 1 None "''all''" None
      scripted 0 "\<lparr>server = [Response 200 ''{}'' (Some (JDict [(''error'', JStr ''quota'')]))], trace = []\<rparr>"
      "[]" "[Response 200 ''{}'' (Some (JDict [(''error'', JStr ''quota'')]))]"
      "''{}''" "Some (JDict [(''error'', JStr ''quota'')])" "[]"]
  by (simp add: scripted_def default_config_def)

section \<open>Pagination\<close>

lemma retry_loop_first_attempt:
  assumes "0 < MAX_RETRIES cfg"
  shows "retry_loop cfg scripted req 0 \<lparr>server = Response 200 body (Some j) # rest, trace = tr\<rparr>
           = (j, \<lparr>server = rest, trace = tr @ [Request req]\<rparr>)"
    and "retry_loop cfg scripted req 0 \<lparr>server = Response 401 body js # rest, trace = tr\<rparr>
           = (error_dict (''Authentication failed: '' @ body),
              \<lparr>server = rest, trace = tr @ [Request req]\<rparr>)"
  using assms by (simp_all add: retry_loop.simps[of _ _ _ 0] send_def scripted_def)

lemma get_bookmarks_scripted:
  assumes "0 < MAX_RETRIES cfg"
  shows "get_bookmarks cfg scripted None start 100 1 None ''all'' None
           \<lparr>server = page_of n # rest, trace = tr\<rparr>
         = (JList (replicate n example_bookmark),
            \<lparr>server = rest, trace = tr @ [Request (page_request cfg start)]\<rparr>)"
    and "get_bookmarks cfg scripted None start 100 1 None ''all'' None
           \<lparr>server = Response 401 body js # rest, trace = tr\<rparr>
         = (error_dict (''Authentication failed: '' @ body),
            \<lparr>server = rest, trace = tr @ [Request (page_request cfg start)]\<rparr>)"
  using assms
  by (simp_all add: get_bookmarks_def request_with_retry_def retry_loop_first_attempt
      page_of_def page_request_def error_dict_def)

lemma get_bookmarks_shape:
  "is_error (fst (get_bookmarks cfg srv user start count sort' tags filter' list_name st))
   \<or> is_list (fst (get_bookmarks cfg srv user start count sort' tags filter' list_name st))"
  by (simp add: get_bookmarks_def split: prod.splits)

lemma loop_full_page:
  assumes "get_bookmarks cfg srv user start 100 sort' tags filter' list_name st = (JList items, st1)"
    and "100 \<le> length items"
  shows "get_all_bookmarks_loop cfg srv user sort' tags filter' list_name start acc st =
         get_all_bookmarks_loop cfg srv user sort' tags filter' list_name (start + 100)
           (acc @ items) st1"
  using assms by (subst get_all_bookmarks_loop.simps) auto

lemma loop_last_page:
  assumes "get_bookmarks cfg srv user start 100 sort' tags filter' list_name st = (JList items, st1)"
    and "length items < 100"
  shows "get_all_bookmarks_loop cfg srv user sort' tags filter' list_name start acc st =
         Some (Inr (JList (acc @ items)), st1)"
  using assms by (subst get_all_bookmarks_loop.simps) (cases items; auto)

lemma loop_error_page:
  assumes "get_bookmarks cfg srv user start 100 sort' tags filter' list_name st = (page, st1)"
    and "is_error page"
  shows "get_all_bookmarks_loop cfg srv user sort' tags filter' list_name start acc st =
         Some (Inr page, st1)"
  using assms by (subst get_all_bookmarks_loop.simps) auto

lemma loop_full_pages:
  assumes "fetch_pages cfg srv user sort' tags filter' list_name start k st = (pages, st1)"
    and "\<forall>p\<in>set pages. \<exists>items. p = JList items \<and> 100 \<le> length items"
  shows "get_all_bookmarks_loop cfg srv user sort' tags filter' list_name start acc st =
         get_all_bookmarks_loop cfg srv user sort' tags filter' list_name (start + 100 * int k)
           (acc @ concat (map list_items pages)) st1"
  using assms
proof (induction k arbitrary: start acc st pages st1)
  case 0
  then show ?case by simp
next
  case (Suc k)
  obtain page st' where g:
    "get_bookmarks cfg srv user start 100 sort' tags filter' list_name st = (page, st')"
    by (cases "get_bookmarks cfg srv user start 100 sort' tags filter' list_name st")
  obtain rest st'' where r:
    "fetch_pages cfg srv user sort' tags filter' list_name (start + 100) k st' = (rest, st'')"
    by (cases "fetch_pages cfg srv user sort' tags filter' list_name (start + 100) k st'")
  from Suc.prems(1) g r have pages: "pages = page # rest" and st1: "st'' = st1" by auto
  from Suc.prems(2) pages obtain items where items: "page = JList items" "100 \<le> length items"
    by auto
  from Suc.prems(2) pages have rest: "\<forall>p\<in>set rest. \<exists>items. p = JList items \<and> 100 \<le> length items"
    by auto
  have "get_all_bookmarks_loop cfg srv user sort' tags filter' list_name start acc st =
        get_all_bookmarks_loop cfg srv user sort' tags filter' list_name (start + 100)
          (acc @ items) st'"
    using g items by (intro loop_full_page) auto
  also have "\<dots> = get_all_bookmarks_loop cfg srv user sort' tags filter' list_name
          (start + 100 + 100 * int k) ((acc @ items) @ concat (map list_items rest)) st''"
    using r rest by (rule Suc.IH)
  finally show ?case by (simp add: pages items st1 algebra_simps)
qed

text \<open>
  Claim C4. \<open>get_all_bookmarks\<close> fetches pages of 100 at the offsets 0, 100, 200, ...
  as long as each page is a list of at least 100 items. After \<open>k\<close> such pages, a page
  with fewer than 100 items (possibly none) ends the run with all items concatenated in
  order, and a page that is an error value ends it with that error alone; in both cases
  the final state is the one right after that page, so no further page is fetched.
  The page size is the constant 100 of the source.
\<close>

theorem get_all_bookmarks_pages:
  assumes "fetch_pages cfg srv user sort' tags filter' list_name 0 k st = (pages, st1)"
    and "\<forall>p\<in>set pages. \<exists>items. p = JList items \<and> 100 \<le> length items"
    and "get_bookmarks cfg srv user (100 * int k) 100 sort' tags filter' list_name st1
           = (final, st2)"
  shows "(\<forall>items. final = JList items \<and> length items < 100 \<longrightarrow>
            get_all_bookmarks cfg srv user sort' tags filter' list_name st =
              Some (Inr (JList (concat (map list_items pages) @ items)), st2))
       \<and> (is_error final \<longrightarrow>
            get_all_bookmarks cfg srv user sort' tags filter' list_name st =
              Some (Inr final, st2))"
proof -
  have "get_all_bookmarks cfg srv user sort' tags filter' list_name st =
        get_all_bookmarks_loop cfg srv user sort' tags filter' list_name (100 * int k)
          (concat (map list_items pages)) st1"
    using loop_full_pages[OF assms(1,2), of "[]"] by (simp add: get_all_bookmarks_def)
  moreover have "get_all_bookmarks_loop cfg srv user sort' tags filter' list_name (100 * int k)
          (concat (map list_items pages)) st1 =
        Some (Inr (JList (concat (map list_items pages) @ items)), st2)"
    if "final = JList items \<and> length items < 100" for items
    using that assms(3) by (intro loop_last_page) auto
  moreover have "get_all_bookmarks_loop cfg srv user sort' tags filter' list_name (100 * int k)
          (concat (map list_items pages)) st1 = Some (Inr final, st2)"
    if "is_error final"
    using that assms(3) by (intro loop_error_page) auto
  ultimately show ?thesis by simp
qed

theorem get_all_bookmarks_pages_witness:
  "get_all_bookmarks default_config scripted None 1 None ''all'' None
     \<lparr>server = [page_of 100, page_of 100, page_of 37, page_of 100], trace = []\<rparr> =
   Some (Inr (JList (replicate 237 example_bookmark)),
         \<lparr>server = [page_of 100],
          trace = [Request (page_request default_config 0),
                   Request (page_request default_config 100),
                   Request (page_request default_config 200)]\<rparr>)
   \<and> get_all_bookmarks default_config scripted None 1 None ''all'' None
     \<lparr>server = [page_of 100, Response 401 ''denied'' None, page_of 37], trace = []\<rparr> =
   Some (Inr (error_dict ''Authentication failed: denied''),
         \<lparr>server = [page_of 37],
          trace = [Request (page_request default_config 0),
                   Request (page_request default_config 100)]\<rparr>)"
proof -
  have m: "0 < MAX_RETRIES default_config" by (simp add: default_config_def)
  note gb = get_bookmarks_scripted[OF m]
  have a: "get_all_bookmarks default_config scripted None 1 None ''all'' None
     \<lparr>server = [page_of 100, page_of 100, page_of 37, page_of 100], trace = []\<rparr> =
   Some (Inr (JList (replicate 237 example_bookmark)),
         \<lparr>server = [page_of 100],
          trace = [Request (page_request default_config 0),
                   Request (page_request default_config 100),
                   Request (page_request default_config 200)]\<rparr>)"
    using get_all_bookmarks_pages[of default_config scripted None 1 None "''all''" None 2
        "\<lparr>server = [page_of 100, page_of 100, page_of 37, page_of 100], trace = []\<rparr>"
        "[JList (replicate 100 example_bookmark), JList (replicate 100 example_bookmark)]"
        "\<lparr>server = [page_of 37, page_of 100],
          trace = [Request (page_request default_config 0),
                   Request (page_request default_config 100)]\<rparr>"
        "JList (replicate 37 example_bookmark)"
        "\<lparr>server = [page_of 100],
          trace = [Request (page_request default_config 0),
                   Request (page_request default_config 100),
                   Request (page_request default_config 200)]\<rparr>"]
    by (simp add: numeral_2_eq_2 gb replicate_add[symmetric])
  have b: "get_all_bookmarks default_config scripted None 1 None ''all'' None
     \<lparr>server = [page_of 100, Response 401 ''denied'' None, page_of 37], trace = []\<rparr> =
   Some (Inr (error_dict ''Authentication failed: denied''),
         \<lparr>server = [page_of 37],
          trace = [Request (page_request default_config 0),
                   Request (page_request default_config 100)]\<rparr>)"
    using get_all_bookmarks_pages[of default_config scripted None 1 None "''all''" None 1
        "\<lparr>server = [page_of 100, Response 401 ''denied'' None, page_of 37], trace = []\<rparr>"
        "[JList (replicate 100 example_bookmark)]"
        "\<lparr>server = [Response 401 ''denied'' None, page_of 37],
          trace = [Request (page_request default_config 0)]\<rparr>"
        "error_dict ''Authentication failed: denied''"
        "\<lparr>server = [page_of 37],
          trace = [Request (page_request default_config 0),
                   Request (page_request default_config 100)]\<rparr>"]
    by (simp add: gb) (simp add: error_dict_def)
  from a b show ?thesis by simp
qed

section \<open>Creating and updating a bookmark\<close>

lemma retry_loop_requests:
  "set (requests_of (trace (snd (retry_loop cfg srv req a st))))
     \<subseteq> set (requests_of (trace st)) \<union> {req}"
proof (induction cfg srv req a st rule: retry_loop.induct)
  case (1 cfg srv req attempt st)
  show ?case
    apply (subst retry_loop.simps)
    using 1
    apply (auto simp: send_def log_event_def requests_of_append split: prod.splits outcome.splits option.splits if_splits)
    apply blast+
    done
qed

lemma request_with_retry_requests:
  "set (requests_of (trace (snd (request_with_retry cfg srv method endpoint params data st))))
     \<subseteq> set (requests_of (trace st)) \<union> {build_request cfg method endpoint params data}"
  unfolding request_with_retry_def by (rule retry_loop_requests)

text \<open>
  Claim C7. With a URL that \<open>validate_url\<close> rejects, \<open>create_bookmark_tool\<close> returns
  \<^verbatim>\<open>{"error": "Invalid URL: <url>"}\<close> in the unchanged state: no session is opened and no
  request is sent. With a valid URL (and credentials from which the client can be built)
  it opens the session, makes the one call \<^verbatim>\<open>POST bookmarks\<close> whose form data carry the
  given fields and \<^verbatim>\<open>merge = "no"\<close>, returns its result and closes the session; every
  request sent during the tool call is that request.
\<close>

theorem create_validates_then_saves_once:
  assumes "data = [(''url'', JStr url), (''title'', JStr title), (''desc'', JStr desc),
                   (''tags'', JStr tags),
                   (''shared'', JStr (if shared then ''yes'' else ''no'')),
                   (''readLater'', JStr (if read_later then ''yes'' else ''no'')),
                   (''merge'', JStr ''no'')]"
    and "saved = request_with_retry cfg srv ''POST'' ''bookmarks'' None (Some data)
                   (log_event SessionOpen st)"
  shows "(\<not> validate_url urlparse url \<longrightarrow>
            create_bookmark_tool cfg srv urlparse url title desc tags shared read_later st =
              Some (Inr (Dumps (error_dict (''Invalid URL: '' @ url))), st))
       \<and> (validate_url urlparse url \<and> DiigoClient_init cfg = Inr () \<longrightarrow>
            create_bookmark_tool cfg srv urlparse url title desc tags shared read_later st =
              Some (Inr (Dumps (fst saved)), log_event SessionClose (snd saved))
            \<and> set (requests_of (trace (snd saved)))
                  \<subseteq> set (requests_of (trace st))
                      \<union> {build_request cfg ''POST'' ''bookmarks'' None (Some data)})"
proof (intro conjI impI)
  assume "\<not> validate_url urlparse url"
  then show "create_bookmark_tool cfg srv urlparse url title desc tags shared read_later st =
              Some (Inr (Dumps (error_dict (''Invalid URL: '' @ url))), st)"
    by (simp add: create_bookmark_tool_def try_except_def)
next
  assume h: "validate_url urlparse url \<and> DiigoClient_init cfg = Inr ()"
  then show "create_bookmark_tool cfg srv urlparse url title desc tags shared read_later st =
              Some (Inr (Dumps (fst saved)), log_event SessionClose (snd saved))"
    by (simp add: create_bookmark_tool_def try_except_def with_client_def save_bookmark_def
        assms split: prod.splits)
  show "set (requests_of (trace (snd saved)))
          \<subseteq> set (requests_of (trace st))
              \<union> {build_request cfg ''POST'' ''bookmarks'' None (Some data)}"
    using request_with_retry_requests[of cfg srv "''POST''" "''bookmarks''" None "Some data"
        "log_event SessionOpen st"]
    by (simp add: assms(2) log_event_def requests_of_append)
qed

theorem create_validates_then_saves_once_witness:
  "create_bookmark_tool default_config scripted simple_urlparse ''not a url'' ''T'' ''D'' ''t1'' True False
     \<lparr>server = [Response 200 ''ok'' (Some (JDict [(''message'', JStr ''added 1 bookmark'')]))],
      trace = []\<rparr> =
   Some (Inr (Dumps (error_dict ''Invalid URL: not a url'')),
     \<lparr>server = [Response 200 ''ok'' (Some (JDict [(''message'', JStr ''added 1 bookmark'')]))],
      trace = []\<rparr>)
   \<and> create_bookmark_tool default_config scripted simple_urlparse ''https://e.com/a'' ''T'' ''D'' ''t1'' True False
     \<lparr>server = [Response 200 ''ok'' (Some (JDict [(''message'', JStr ''added 1 bookmark'')]))],
      trace = []\<rparr> =
   Some (Inr (Dumps (JDict [(''message'', JStr ''added 1 bookmark'')])),
     \<lparr>server = [],
      trace = [SessionOpen,
               Request (build_request default_config ''POST'' ''bookmarks'' None
                 (Some [(''url'', JStr ''https://e.com/a''), (''title'', JStr ''T''),
                        (''desc'', JStr ''D''), (''tags'', JStr ''t1''),
                        (''shared'', JStr ''yes''), (''readLater'', JStr ''no''),
                        (''merge'', JStr ''no'')])),
               SessionClose]\<rparr>)"
proof -
  let ?st = "\<lparr>server = [Response 200 ''ok'' (Some (JDict [(''message'', JStr ''added 1 bookmark'')]))],
      trace = []\<rparr>"
  have m: "0 < MAX_RETRIES default_config" by (simp add: default_config_def)
  have v: "\<not> validate_url simple_urlparse ''not a url''"
    "validate_url simple_urlparse ''https://e.com/a''"
    by (simp_all add: validate_url_def simple_urlparse_def)
  have c: "DiigoClient_init default_config = Inr ()"
    by (simp add: DiigoClient_init_def BasicAuth_def default_config_def)
  show ?thesis
    using create_validates_then_saves_once[OF refl refl,
        of simple_urlparse "''not a url''" default_config scripted "''T''" "''D''" "''t1''" True False ?st]
      create_validates_then_saves_once[OF refl refl,
        of simple_urlparse "''https://e.com/a''" default_config scripted "''T''" "''D''" "''t1''" True False ?st]
    by (simp add: v c log_event_def request_with_retry_def retry_loop_first_attempt[OF m])
qed

lemma find_url_found:
  assumes "\<forall>b\<in>set pre. \<exists>kv. b = JDict kv \<and> map_of kv ''url'' \<noteq> Some (JStr url)"
    and "map_of kvs ''url'' = Some (JStr url)"
  shows "find_url url (pre @ JDict kvs # post) = Inr (Some (JDict kvs))"
  using assms by (induction pre) (auto split: option.splits)

lemma find_url_absent:
  assumes "\<forall>b\<in>set bs. \<exists>kv. b = JDict kv \<and> map_of kv ''url'' \<noteq> Some (JStr url)"
  shows "find_url url bs = Inr None"
  using assms by (induction bs) (auto split: option.splits)

lemma get_all_bookmarks_single_page:
  assumes "0 < MAX_RETRIES cfg" and "n < 100"
  shows "get_all_bookmarks cfg scripted None 1 None ''all'' None
           \<lparr>server = page_of n # rest, trace = tr\<rparr>
         = Some (Inr (JList (replicate n example_bookmark)),
                 \<lparr>server = rest, trace = tr @ [Request (page_request cfg 0)]\<rparr>)"
proof -
  have g: "get_bookmarks cfg scripted None 0 100 1 None ''all'' None
             \<lparr>server = page_of n # rest, trace = tr\<rparr>
           = (JList (replicate n example_bookmark),
              \<lparr>server = rest, trace = tr @ [Request (page_request cfg 0)]\<rparr>)"
    by (rule get_bookmarks_scripted(1)[OF assms(1)])
  show ?thesis
    unfolding get_all_bookmarks_def
    using loop_last_page[OF g, where acc = "[]"] assms(2) by simp
qed

text \<open>
  Claim C5. Let the URL be valid, the client be built, and the full fetch return the list
  \<open>bs\<close> of bookmark dicts. If \<open>existing\<close> is the first one whose \<^verbatim>\<open>url\<close> is exactly the
  given URL, \<open>update_bookmark_tool\<close> makes the one call \<^verbatim>\<open>POST bookmarks\<close> whose form data
  are: the URL; for title, description and tags the given value, else the value the
  existing record has (the empty string when it has none); for \<^verbatim>\<open>shared\<close> and
  \<^verbatim>\<open>readLater\<close> the given flag, else whether the existing record has \<^verbatim>\<open>"yes"\<close> under
  \<^verbatim>\<open>shared\<close> and \<^verbatim>\<open>readlater\<close>, as \<^verbatim>\<open>"yes"\<close> or \<^verbatim>\<open>"no"\<close>; and
  \<^verbatim>\<open>merge = "yes"\<close>. If no bookmark has that URL, the tool returns
  \<^verbatim>\<open>{"error": "Bookmark not found: <url>"}\<close> and the session is closed right after the
  fetch, with no save request.
\<close>

theorem update_merges_fields:
  assumes "validate_url urlparse url"
    and "DiigoClient_init cfg = Inr ()"
    and "get_all_bookmarks cfg srv None 1 None ''all'' None (log_event SessionOpen st)
           = Some (Inr (JList bs), st1)"
    and "field = (\<lambda>given key. case given of
                     Some s \<Rightarrow> JStr s
                   | None \<Rightarrow> (case map_of existing key of None \<Rightarrow> JStr [] | Some v \<Rightarrow> v))"
    and "flag = (\<lambda>given key. case given of
                    Some b \<Rightarrow> b
                  | None \<Rightarrow> map_of existing key = Some (JStr ''yes''))"
    and "data = [(''url'', JStr url),
                 (''title'', field title ''title''),
                 (''desc'', field desc ''desc''),
                 (''tags'', field tags ''tags''),
                 (''shared'', JStr (if flag shared ''shared'' then ''yes'' else ''no'')),
                 (''readLater'', JStr (if flag read_later ''readlater'' then ''yes'' else ''no'')),
                 (''merge'', JStr ''yes'')]"
    and "saved = request_with_retry cfg srv ''POST'' ''bookmarks'' None (Some data) st1"
  shows "(bs = pre @ JDict existing # post
            \<and> (\<forall>b\<in>set pre. \<exists>kv. b = JDict kv \<and> map_of kv ''url'' \<noteq> Some (JStr url))
            \<and> map_of existing ''url'' = Some (JStr url) \<longrightarrow>
          update_bookmark_tool cfg srv urlparse url title desc tags shared read_later st =
            Some (Inr (Dumps (fst saved)), log_event SessionClose (snd saved))
          \<and> set (requests_of (trace (snd saved)))
                \<subseteq> set (requests_of (trace st1))
                    \<union> {build_request cfg ''POST'' ''bookmarks'' None (Some data)})
       \<and> ((\<forall>b\<in>set bs. \<exists>kv. b = JDict kv \<and> map_of kv ''url'' \<noteq> Some (JStr url)) \<longrightarrow>
          update_bookmark_tool cfg srv urlparse url title desc tags shared read_later st =
            Some (Inr (Dumps (error_dict (''Bookmark not found: '' @ url))),
                  log_event SessionClose st1))"
proof (intro conjI impI)
  assume h: "bs = pre @ JDict existing # post
            \<and> (\<forall>b\<in>set pre. \<exists>kv. b = JDict kv \<and> map_of kv ''url'' \<noteq> Some (JStr url))
            \<and> map_of existing ''url'' = Some (JStr url)"
  then have f: "find_url url bs = Inr (Some (JDict existing))"
    by (simp add: find_url_found)
  have ne: "existing \<noteq> []" using h by auto
  have sv: "save_bookmark cfg srv (JStr url) (field title ''title'') (field desc ''desc'')
              (field tags ''tags'') (JBool (flag shared ''shared''))
              (JBool (flag read_later ''readlater'')) (JBool True) st1 = saved"
    by (simp add: save_bookmark_def assms(6,7))
  have mf: "merged_field title (JDict existing) ''title'' = Inr (field title ''title'')"
    "merged_field desc (JDict existing) ''desc'' = Inr (field desc ''desc'')"
    "merged_field tags (JDict existing) ''tags'' = Inr (field tags ''tags'')"
    by (simp_all add: merged_field_def assms(4) split: option.splits)
  have mg: "merged_flag shared (JDict existing) ''shared'' = Inr (JBool (flag shared ''shared''))"
    "merged_flag read_later (JDict existing) ''readlater''
       = Inr (JBool (flag read_later ''readlater''))"
    by (auto simp: merged_flag_def assms(5) split: option.splits)
  show "update_bookmark_tool cfg srv urlparse url title desc tags shared read_later st =
            Some (Inr (Dumps (fst saved)), log_event SessionClose (snd saved))"
    unfolding update_bookmark_tool_def try_except_def with_client_def
    by (simp add: assms(1,2,3) f ne mf mg sv split: prod.splits)
  show "set (requests_of (trace (snd saved)))
                \<subseteq> set (requests_of (trace st1))
                    \<union> {build_request cfg ''POST'' ''bookmarks'' None (Some data)}"
    unfolding assms(7) by (rule request_with_retry_requests)
next
  assume "\<forall>b\<in>set bs. \<exists>kv. b = JDict kv \<and> map_of kv ''url'' \<noteq> Some (JStr url)"
  then have f: "find_url url bs = Inr None" by (rule find_url_absent)
  show "update_bookmark_tool cfg srv urlparse url title desc tags shared read_later st =
            Some (Inr (Dumps (error_dict (''Bookmark not found: '' @ url))),
                  log_event SessionClose st1)"
    unfolding update_bookmark_tool_def try_except_def with_client_def
    by (simp add: assms(1,2,3) f)
qed

theorem update_merges_fields_witness:
  "update_bookmark_tool default_config scripted simple_urlparse ''https://e.com/a''
     None None (Some ''new'') None None
     \<lparr>server = [page_of 1, Response 200 ''ok'' (Some (JDict [(''message'', JStr ''updated'')]))],
      trace = []\<rparr> =
   Some (Inr (Dumps (JDict [(''message'', JStr ''updated'')])),
     \<lparr>server = [],
      trace = [SessionOpen,
               Request (page_request default_config 0),
               Request (build_request default_config ''POST'' ''bookmarks'' None
                 (Some [(''url'', JStr ''https://e.com/a''), (''title'', JStr ''T''),
                        (''desc'', JStr ''D''), (''tags'', JStr ''new''),
                        (''shared'', JStr ''yes''), (''readLater'', JStr ''no''),
                        (''merge'', JStr ''yes'')])),
               SessionClose]\<rparr>)
   \<and> update_bookmark_tool default_config scripted simple_urlparse ''https://e.com/b''
     None None (Some ''new'') None None
     \<lparr>server = [page_of 1, Response 200 ''ok'' (Some (JDict [(''message'', JStr ''updated'')]))],
      trace = []\<rparr> =
   Some (Inr (Dumps (error_dict ''Bookmark not found: https://e.com/b'')),
     \<lparr>server = [Response 200 ''ok'' (Some (JDict [(''message'', JStr ''updated'')]))],
      trace = [SessionOpen, Request (page_request default_config 0), SessionClose]\<rparr>)"
proof -
  let ?ok = "Response 200 ''ok'' (Some (JDict [(''message'', JStr ''updated'')]))"
  let ?st = "\<lparr>server = [page_of 1, ?ok], trace = []\<rparr>"
  let ?st1 = "\<lparr>server = [?ok], trace = [SessionOpen, Request (page_request default_config 0)]\<rparr>"
  have m: "0 < MAX_RETRIES default_config" by (simp add: default_config_def)
  have v: "validate_url simple_urlparse ''https://e.com/a''"
    "validate_url simple_urlparse ''https://e.com/b''"
    by (simp_all add: validate_url_def simple_urlparse_def)
  have c: "DiigoClient_init default_config = Inr ()"
    by (simp add: DiigoClient_init_def BasicAuth_def default_config_def)
  have g: "get_all_bookmarks default_config scripted None 1 None ''all'' None
             (log_event SessionOpen ?st) = Some (Inr (JList [example_bookmark]), ?st1)"
    using get_all_bookmarks_single_page[OF m, of 1 "[?ok]" "[SessionOpen]"]
    by (simp add: log_event_def)
  have a: "update_bookmark_tool default_config scripted simple_urlparse ''https://e.com/a''
     None None (Some ''new'') None None ?st =
   Some (Inr (Dumps (JDict [(''message'', JStr ''updated'')])),
     \<lparr>server = [],
      trace = [SessionOpen,
               Request (page_request default_config 0),
               Request (build_request default_config ''POST'' ''bookmarks'' None
                 (Some [(''url'', JStr ''https://e.com/a''), (''title'', JStr ''T''),
                        (''desc'', JStr ''D''), (''tags'', JStr ''new''),
                        (''shared'', JStr ''yes''), (''readLater'', JStr ''no''),
                        (''merge'', JStr ''yes'')])),
               SessionClose]\<rparr>)"
    using update_merges_fields[where pre = "[]" and post = "[]"
        and existing = "[(''url'', JStr ''https://e.com/a''), (''title'', JStr ''T''),
            (''desc'', JStr ''D''), (''tags'', JStr ''old''), (''shared'', JStr ''yes''),
            (''readlater'', JStr ''no'')]"
        and title = None and desc = None and tags = "Some ''new''" and shared = None
        and read_later = None,
        OF v(1) c g refl refl refl refl]
    by (simp add: example_bookmark_def log_event_def request_with_retry_def
        retry_loop_first_attempt[OF m])
  have b: "update_bookmark_tool default_config scripted simple_urlparse ''https://e.com/b''
     None None (Some ''new'') None None ?st =
   Some (Inr (Dumps (error_dict ''Bookmark not found: https://e.com/b'')),
     \<lparr>server = [?ok],
      trace = [SessionOpen, Request (page_request default_config 0), SessionClose]\<rparr>)"
    using update_merges_fields[where existing = "[]" and pre = "[]" and post = "[]"
        and title = None and desc = None and tags = "Some ''new''" and shared = None
        and read_later = None,
        OF v(2) c g refl refl refl refl]
    by (simp add: example_bookmark_def log_event_def)
  from a b show ?thesis by simp
qed

section \<open>The tool boundary\<close>

lemma get_bookmarks_endless:
  assumes "0 < MAX_RETRIES cfg"
  shows "get_bookmarks cfg endless user start count sort' tags filter' list_name st =
           (JList (replicate 100 example_bookmark),
            \<lparr>server = (),
             trace = trace st @ [Request (build_request cfg ''GET'' ''bookmarks''
               (Some (get_bookmarks_params cfg user start count sort' tags filter' list_name))
               None)]\<rparr>)"
  using assms
  by (simp add: get_bookmarks_def request_with_retry_def retry_loop.simps[of _ _ _ 0] send_def
      endless_def page_of_def)

lemma loop_endless_aux:
  assumes "get_all_bookmarks_loop cfg endless user sort' tags filter' list_name start acc st = Some y"
    and "0 < MAX_RETRIES cfg"
  shows False
proof -
  have "endless = endless \<longrightarrow> 0 < MAX_RETRIES cfg \<longrightarrow> False"
  proof (rule get_all_bookmarks_loop.raw_induct[where
        P = "\<lambda>cfg srv user sort' tags filter' list_name start bookmarks st y.
               srv = endless \<longrightarrow> 0 < MAX_RETRIES cfg \<longrightarrow> False", OF _ assms(1)])
    fix f :: "config \<Rightarrow> unit server \<Rightarrow> string option \<Rightarrow> int \<Rightarrow> string option \<Rightarrow> string
               \<Rightarrow> string option \<Rightarrow> int \<Rightarrow> json list \<Rightarrow> unit state
               \<Rightarrow> ((exn + json) \<times> unit state) option"
    fix cfg srv user sort' tags filter' list_name start bookmarks st y
    assume IH: "\<And>cfg srv user sort' tags filter' list_name start bookmarks st y.
                  f cfg srv user sort' tags filter' list_name start bookmarks st = Some y \<Longrightarrow>
                  srv = endless \<longrightarrow> 0 < MAX_RETRIES cfg \<longrightarrow> False"
      and step: "(case get_bookmarks cfg srv user start 100 sort' tags filter' list_name st of
           (batch, st1) \<Rightarrow>
             if is_error batch then Some (Inr batch, st1)
             else if \<not> truthy batch then Some (Inr (JList bookmarks), st1)
             else case iter_json batch of
                    Inl e \<Rightarrow> Some (Inl e, st1)
                  | Inr items \<Rightarrow>
                      if length items < 100 then Some (Inr (JList (bookmarks @ items)), st1)
                      else f cfg srv user sort' tags filter' list_name (start + 100)
                             (bookmarks @ items) st1) = Some y"
    show "srv = endless \<longrightarrow> 0 < MAX_RETRIES cfg \<longrightarrow> False"
    proof (intro impI)
      assume e: "srv = endless" and m: "0 < MAX_RETRIES cfg"
      from step have "f cfg endless user sort' tags filter' list_name (start + 100)
                        (bookmarks @ replicate 100 example_bookmark)
                        (snd (get_bookmarks cfg endless user start 100 sort' tags filter'
                                list_name st))
                      = Some y"
        by (simp add: e get_bookmarks_endless[OF m])
      then show False using IH m by blast
    qed
  qed
  then show False using assms(2) by simp
qed

lemma get_all_bookmarks_endless:
  "0 < MAX_RETRIES cfg \<Longrightarrow>
   get_all_bookmarks cfg endless user sort' tags filter' list_name st = None"
  unfolding get_all_bookmarks_def using loop_endless_aux
  by (metis not_Some_eq)

lemma try_except_result:
  "(\<exists>out st'. try_except body st = Some (Inr out, st'))
   \<or> (try_except body st = None \<and> body st = None)"
  by (cases "body st") (auto simp: try_except_def split: sum.splits)

lemma with_client_None:
  "with_client cfg body st = None \<Longrightarrow> body (log_event SessionOpen st) = None"
  by (auto simp: with_client_def split: sum.splits option.splits)

lemma list_bookmarks_tool_result:
  "(\<exists>out st'. list_bookmarks_tool cfg srv user count start sort' tags filter' list_name st
        = Some (Inr out, st'))
   \<or> (count = None
       \<and> list_bookmarks_tool cfg srv user count start sort' tags filter' list_name st = None
       \<and> get_all_bookmarks cfg srv user sort' tags filter' list_name (log_event SessionOpen st)
           = None)"
  unfolding list_bookmarks_tool_def
  using try_except_result[of "with_client cfg (\<lambda>st.
       case (case count of
               None \<Rightarrow> get_all_bookmarks cfg srv user sort' tags filter' list_name st
             | Some c \<Rightarrow>
                 (case get_bookmarks cfg srv user start c sort' tags filter' list_name st of
                    (r, st1) \<Rightarrow> Some (Inr r, st1))) of
         None \<Rightarrow> None
       | Some (Inl e, st1) \<Rightarrow> Some (Inl e, st1)
       | Some (Inr bookmarks, st1) \<Rightarrow> Some (Inr (Dumps bookmarks), st1))" st]
  by (auto dest!: with_client_None split: option.splits sum.splits prod.splits)

lemma search_bookmarks_tool_result:
  "(\<exists>out st'. search_bookmarks_tool cfg srv query tags filter' user st = Some (Inr out, st'))
   \<or> (search_bookmarks_tool cfg srv query tags filter' user st = None
       \<and> get_all_bookmarks cfg srv user 1 tags filter' None (log_event SessionOpen st) = None)"
  unfolding search_bookmarks_tool_def
  by (rule disjE[OF try_except_result])
     (auto dest!: with_client_None split: option.splits sum.splits prod.splits if_splits)

lemma get_bookmark_tool_result:
  "(\<exists>out st'. get_bookmark_tool cfg srv url user st = Some (Inr out, st'))
   \<or> (get_bookmark_tool cfg srv url user st = None
       \<and> get_all_bookmarks cfg srv user 1 None ''all'' None (log_event SessionOpen st) = None)"
  unfolding get_bookmark_tool_def
  by (rule disjE[OF try_except_result])
     (auto dest!: with_client_None split: option.splits sum.splits prod.splits if_splits)

lemma create_bookmark_tool_result:
  "\<exists>out st'. create_bookmark_tool cfg srv urlparse url title desc tags shared read_later st
      = Some (Inr out, st')"
  unfolding create_bookmark_tool_def
  by (rule disjE[OF try_except_result])
     (auto dest!: with_client_None split: option.splits sum.splits prod.splits if_splits)

lemma update_bookmark_tool_result:
  "(\<exists>out st'. update_bookmark_tool cfg srv urlparse url title desc tags shared read_later st
        = Some (Inr out, st'))
   \<or> (update_bookmark_tool cfg srv urlparse url title desc tags shared read_later st = None
       \<and> get_all_bookmarks cfg srv None 1 None ''all'' None (log_event SessionOpen st) = None)"
  unfolding update_bookmark_tool_def
  by (rule disjE[OF try_except_result])
     (auto dest!: with_client_None split: option.splits sum.splits prod.splits if_splits)

lemma delete_bookmark_tool_result:
  "(\<exists>out st'. delete_bookmark_tool cfg srv url title st = Some (Inr out, st'))
   \<or> ((title = None \<or> title = Some [])
       \<and> delete_bookmark_tool cfg srv url title st = None
       \<and> get_all_bookmarks cfg srv None 1 None ''all'' None (log_event SessionOpen st) = None)"
  unfolding delete_bookmark_tool_def
  by (rule disjE[OF try_except_result])
     (auto dest!: with_client_None split: option.splits sum.splits prod.splits if_splits)

lemma get_recent_bookmarks_tool_result:
  "\<exists>out st'. get_recent_bookmarks_tool cfg srv count user st = Some (Inr out, st')"
  unfolding get_recent_bookmarks_tool_def
  by (rule disjE[OF try_except_result])
     (auto dest!: with_client_None split: option.splits sum.splits prod.splits if_splits)

lemma get_annotations_tool_result:
  "(\<exists>out st'. get_annotations_tool cfg srv url user st = Some (Inr out, st'))
   \<or> (get_annotations_tool cfg srv url user st = None
       \<and> get_all_bookmarks cfg srv user 1 None ''all'' None (log_event SessionOpen st) = None)"
  unfolding get_annotations_tool_def
  by (rule disjE[OF try_except_result])
     (auto dest!: with_client_None split: option.splits sum.splits prod.splits if_splits)

lemma bulk_create_bookmarks_tool_result:
  "\<exists>out st'. bulk_create_bookmarks_tool cfg srv bookmarks delay st = Some (Inr out, st')"
  unfolding bulk_create_bookmarks_tool_def
  by (rule disjE[OF try_except_result])
     (auto dest!: with_client_None split: option.splits sum.splits prod.splits if_splits)

text \<open>
  Claim C1, amended. No tool lets an exception out: a tool call that returns, returns one
  reply \<open>Dumps v\<close>, where \<open>v\<close> is a payload or a dict \<^verbatim>\<open>{"error": ...}\<close>. The tools
  \<^verbatim>\<open>create\<close>, \<^verbatim>\<open>get_recent\<close> and \<^verbatim>\<open>bulk_create\<close> always return, and so does
  \<^verbatim>\<open>list\<close> with a count and \<^verbatim>\<open>delete\<close> with a title. The tools that fetch all
  bookmarks (\<^verbatim>\<open>list\<close> without a count, \<^verbatim>\<open>search\<close>, \<^verbatim>\<open>get\<close>, \<^verbatim>\<open>update\<close>,
  \<^verbatim>\<open>delete\<close> without a title, \<^verbatim>\<open>get_annotations\<close>) return unless that fetch never
  ends, which is the only other behaviour they have.
\<close>

theorem tools_return_one_reply:
  "((\<exists>out st'. list_bookmarks_tool cfg srv user count start sort' tags filter' list_name st
        = Some (Inr out, st'))
    \<or> (count = None
        \<and> list_bookmarks_tool cfg srv user count start sort' tags filter' list_name st = None
        \<and> get_all_bookmarks cfg srv user sort' tags filter' list_name (log_event SessionOpen st)
            = None))
   \<and> ((\<exists>out st'. search_bookmarks_tool cfg srv query tags filter' user st = Some (Inr out, st'))
    \<or> (search_bookmarks_tool cfg srv query tags filter' user st = None
        \<and> get_all_bookmarks cfg srv user 1 tags filter' None (log_event SessionOpen st) = None))
   \<and> ((\<exists>out st'. get_bookmark_tool cfg srv url user st = Some (Inr out, st'))
    \<or> (get_bookmark_tool cfg srv url user st = None
        \<and> get_all_bookmarks cfg srv user 1 None ''all'' None (log_event SessionOpen st) = None))
   \<and> (\<exists>out st'. create_bookmark_tool cfg srv urlparse url title desc tag_string shared
                      read_later st = Some (Inr out, st'))
   \<and> ((\<exists>out st'. update_bookmark_tool cfg srv urlparse url new_title new_desc new_tags
                       new_shared new_read_later st = Some (Inr out, st'))
    \<or> (update_bookmark_tool cfg srv urlparse url new_title new_desc new_tags
            new_shared new_read_later st = None
        \<and> get_all_bookmarks cfg srv None 1 None ''all'' None (log_event SessionOpen st) = None))
   \<and> ((\<exists>out st'. delete_bookmark_tool cfg srv url del_title st = Some (Inr out, st'))
    \<or> ((del_title = None \<or> del_title = Some [])
        \<and> delete_bookmark_tool cfg srv url del_title st = None
        \<and> get_all_bookmarks cfg srv None 1 None ''all'' None (log_event SessionOpen st) = None))
   \<and> (\<exists>out st'. get_recent_bookmarks_tool cfg srv recent_count user st = Some (Inr out, st'))
   \<and> ((\<exists>out st'. get_annotations_tool cfg srv url user st = Some (Inr out, st'))
    \<or> (get_annotations_tool cfg srv url user st = None
        \<and> get_all_bookmarks cfg srv user 1 None ''all'' None (log_event SessionOpen st) = None))
   \<and> (\<exists>out st'. bulk_create_bookmarks_tool cfg srv bookmarks delay st = Some (Inr out, st'))"
  by (intro conjI list_bookmarks_tool_result search_bookmarks_tool_result
      get_bookmark_tool_result create_bookmark_tool_result update_bookmark_tool_result
      delete_bookmark_tool_result get_recent_bookmarks_tool_result get_annotations_tool_result
      bulk_create_bookmarks_tool_result)

text \<open>
  Claim C1 as stated fails: against a server that answers every page request with a full
  page of 100 bookmarks, \<^verbatim>\<open>list_bookmarks\<close> without a count never returns a result.
\<close>

theorem tools_return_one_reply_counterexample:
  "list_bookmarks_tool default_config endless None None 0 1 None ''all'' None
     \<lparr>server = (), trace = []\<rparr> = None"
proof -
  have "get_all_bookmarks default_config endless None 1 None ''all'' None
          (log_event SessionOpen \<lparr>server = (), trace = []\<rparr>) = None"
    by (rule get_all_bookmarks_endless) (simp add: default_config_def)
  then show ?thesis
    by (simp add: list_bookmarks_tool_def try_except_def with_client_def DiigoClient_init_def
        BasicAuth_def default_config_def)
qed

section \<open>Bulk creation\<close>

text \<open>
  When every item is a dict, the loop goes through the whole batch whatever happens to a
  single item, and each item adds one to the success count or one record to the failures.
\<close>

lemma bulk_try_dict:
  assumes "is_dict bookmark"
  shows "(\<exists>st1. bulk_try cfg srv delay n i bookmark s f st = (Inr (s + 1, f), st1))
       \<or> (\<exists>r st1. bulk_try cfg srv delay n i bookmark s f st = (Inr (s, f @ [r]), st1))
       \<or> (\<exists>e st1. bulk_try cfg srv delay n i bookmark s f st = (Inl e, st1))"
  by (cases "bulk_try cfg srv delay n i bookmark s f st")
     (auto simp: bulk_try_def split: prod.splits sum.splits if_splits)

lemma bulk_loop_never_aborts:
  assumes "\<forall>b\<in>set bookmarks. is_dict b"
  shows "\<exists>s1 f1 st1. bulk_loop cfg srv delay n i bookmarks s f st = (Inr (s1, f1), st1)
           \<and> (s1 - s) + (int (length f1) - int (length f)) = int (length bookmarks)"
  using assms
proof (induction bookmarks arbitrary: i s f st)
  case Nil
  then show ?case by simp
next
  case (Cons b bs)
  then obtain kvs where b: "b = JDict kvs" by (cases b) auto
  from Cons.prems have bs: "\<forall>b\<in>set bs. is_dict b" by simp
  have d: "is_dict b" using b by simp
  consider (ok) st1 where "bulk_try cfg srv delay n i b s f st = (Inr (s + 1, f), st1)"
    | (failed) r st1 where "bulk_try cfg srv delay n i b s f st = (Inr (s, f @ [r]), st1)"
    | (raised) e st1 where "bulk_try cfg srv delay n i b s f st = (Inl e, st1)"
    using bulk_try_dict[OF d, of cfg srv delay n i s f st] by blast
  then show ?case
  proof cases
    case ok
    from Cons.IH[OF bs, of "i + 1" "s + 1" f st1] ok show ?thesis by auto
  next
    case failed
    from Cons.IH[OF bs, of "i + 1" s "f @ [r]" st1] failed show ?thesis by auto
  next
    case raised
    from Cons.IH[OF bs, of "i + 1" s
        "f @ [JDict [(''index'', JInt i),
                     (''url'', case map_of kvs ''url'' of None \<Rightarrow> JNull | Some v \<Rightarrow> v),
                     (''error'', JStr (exn_str e))]]" st1] raised
    show ?thesis by (auto simp: b)
  qed
qed

lemma save_bookmark_kwargs_scripted:
  assumes "0 < MAX_RETRIES cfg"
  shows "save_bookmark_kwargs cfg scripted (JDict [(''url'', u), (''title'', t)])
           \<lparr>server = saved_ok # rest, trace = tr\<rparr> =
         (Inr (JDict [(''message'', JStr ''added 1 bookmark'')]),
          \<lparr>server = rest,
           trace = tr @ [Request (build_request cfg ''POST'' ''bookmarks'' None
             (Some [(''url'', u), (''title'', t), (''desc'', JStr []), (''tags'', JStr []),
                    (''shared'', JStr ''no''), (''readLater'', JStr ''no''),
                    (''merge'', JStr ''yes'')]))]\<rparr>)"
    and "save_bookmark_kwargs cfg scripted (JDict [(''url'', u), (''title'', t)])
           \<lparr>server = rejected # rest, trace = tr\<rparr> =
         (Inr (error_dict ''Resource not found: bad url''),
          \<lparr>server = rest,
           trace = tr @ [Request (build_request cfg ''POST'' ''bookmarks'' None
             (Some [(''url'', u), (''title'', t), (''desc'', JStr []), (''tags'', JStr []),
                    (''shared'', JStr ''no''), (''readLater'', JStr ''no''),
                    (''merge'', JStr ''yes'')]))]\<rparr>)"
  using assms
  by (simp_all add: save_bookmark_kwargs_def save_bookmark_def request_with_retry_def
      retry_loop.simps[of _ _ _ 0] send_def scripted_def saved_ok_def rejected_def)

text \<open>
  Claim C6 at the failing input. The tool passes the batch to \<open>bulk_save_bookmarks\<close>
  without validating any URL: when the server accepts all three saves, the item with the
  bad URL counts as a success (3 successes, no failure). Only when the server rejects the
  second save is the summary the one the claim describes: 2 successes, 1 failure with
  index 1, and two sleeps of the delay.
\<close>

theorem bulk_create_bad_url_not_validated:
  "\<not> validate_url simple_urlparse ''not a url''
   \<and> map_option fst (bulk_create_bookmarks_tool default_config scripted bad_url_batch (1/2)
        \<lparr>server = [saved_ok, saved_ok, saved_ok], trace = []\<rparr>) =
       Some (Inr (Dumps (JDict [(''total'', JInt 3), (''success'', JInt 3), (''failed'', JInt 0),
                                 (''failures'', JList [])])))
   \<and> map_option (\<lambda>r. sleeps_of (trace (snd r)))
        (bulk_create_bookmarks_tool default_config scripted bad_url_batch (1/2)
          \<lparr>server = [saved_ok, saved_ok, saved_ok], trace = []\<rparr>) = Some [1/2, 1/2]
   \<and> map_option fst (bulk_create_bookmarks_tool default_config scripted bad_url_batch (1/2)
        \<lparr>server = [saved_ok, rejected, saved_ok], trace = []\<rparr>) =
       Some (Inr (Dumps (JDict [(''total'', JInt 3), (''success'', JInt 2), (''failed'', JInt 1),
          (''failures'', JList [JDict [(''index'', JInt 1), (''url'', JStr ''not a url''),
                                       (''error'', JStr ''Resource not found: bad url'')]])])))
   \<and> map_option (\<lambda>r. sleeps_of (trace (snd r)))
        (bulk_create_bookmarks_tool default_config scripted bad_url_batch (1/2)
          \<lparr>server = [saved_ok, rejected, saved_ok], trace = []\<rparr>) = Some [1/2, 1/2]"
proof -
  have m: "0 < MAX_RETRIES default_config" by (simp add: default_config_def)
  have c: "DiigoClient_init default_config = Inr ()"
    by (simp add: DiigoClient_init_def BasicAuth_def default_config_def)
  have v: "\<not> validate_url simple_urlparse ''not a url''"
    by (simp add: validate_url_def simple_urlparse_def)
  note kw = save_bookmark_kwargs_scripted[OF m]
  show ?thesis
    by (simp add: v c kw bulk_create_bookmarks_tool_def try_except_def with_client_def
        bulk_save_bookmarks_def bulk_try_def bad_url_batch_def log_event_def error_dict_def
        sleeps_of_append)
qed

end
